theory Spec2Isabelle
  imports Main "HOL-Library.AList"
begin

section \<open>pg\_variables: session variables with nested-transaction undo\<close>

text \<open>
  A shallow embedding of \<^verbatim>\<open>pg_variables.c\<close>. The module keeps its whole state in
  file-level globals; the model threads them through every function as one record.
  Pointers to hash-table entries become the keys of those entries: a package is
  referred to by its key, a variable by the key of its package, the table it lives
  in and its own key. A pointer whose entry has been removed, a freed hash table and
  the head of an empty state list are undefined in C; the model reports each of them
  as the error \<open>Undefined\<close>, so no theorem below rests on an unspecified value.
  (A key kept in a frame or in the cache after its entry has gone refers, in the
  model, to a later entry of the same key; in C such a pointer dangles. The general
  theorems below start from states whose objects exist.)

  \<^verbatim>\<open>GetCurrentTransactionNestLevel()\<close> belongs to the host; every function that calls
  it takes its result as the argument \<open>lvl\<close>. Memory contexts are kept only as far as
  the code tests them (\<^verbatim>\<open>ModuleContext\<close>, \<^verbatim>\<open>changesStackContext\<close>) or frees a table
  through them (\<^verbatim>\<open>hctxRegular\<close>). The SQL wrappers' checks for NULL arguments are
  left out: the model's arguments are values.

  \<^verbatim>\<open>ereport(ERROR, ...)\<close> leaves the function by a non-local jump and keeps every
  global as it is at that moment: an error result therefore carries the state in
  which it was raised.
\<close>

subsection \<open>Data model\<close>

type_synonym name = string
type_synonym Oid = nat
type_synonym Datum = int

text \<open>\<^verbatim>\<open>NAMEDATALEN\<close> and \<^verbatim>\<open>RECORDOID\<close> come from the PostgreSQL headers.\<close>

definition NAMEDATALEN :: nat where
  "NAMEDATALEN = 64"

definition RECORDOID :: Oid where
  "RECORDOID = 2249"

text \<open>
  Every \<^verbatim>\<open>ereport\<close> of the file uses the same SQL error code; the messages tell
  them apart, and the constructors follow the messages.
\<close>

datatype pgv_error =
    NameTooLong                \<comment> \<open>name "..." is too long\<close>
  | UnrecognizedPackage        \<comment> \<open>unrecognized package "..."\<close>
  | UnrecognizedVariable       \<comment> \<open>unrecognized variable "..."\<close>
  | AlreadyCreatedAs bool      \<comment> \<open>variable "..." already created as [NOT ]TRANSACTIONAL\<close>
  | RequiresValue Oid          \<comment> \<open>variable "..." requires "type" value\<close>
  | RecordError                \<comment> \<open>raised by the record storage, which is external\<close>
  | Undefined                  \<comment> \<open>undefined behaviour of the C program\<close>

text \<open>
  A scalar keeps \<^verbatim>\<open>typbyval\<close> and \<^verbatim>\<open>typlen\<close> as well; they only say how
  \<^verbatim>\<open>datumCopy\<close> and \<^verbatim>\<open>pfree\<close> treat the datum, which the model holds by value.
\<close>

record ScalarVar =
  scalar_value :: Datum
  is_null :: bool

type_synonym TupleDesc = "Oid list"
type_synonym HeapTuple = "Datum list"

record RecordVar =
  tupdesc :: "TupleDesc option"
  rhash :: "HeapTuple list"

datatype VarValue = scalar ScalarVar | record_val RecordVar

record TransState =
  is_valid :: bool
  level :: int

type_synonym PackState = TransState

record VarState = TransState +
  val :: VarValue

record 's TransObject =
  states :: "'s list"

record Variable = "VarState TransObject" +
  typid :: Oid
  is_transactional :: bool

text \<open>
  \<^verbatim>\<open>varHashRegular\<close> is \<open>None\<close> once \<^verbatim>\<open>MemoryContextDelete(hctxRegular)\<close> has freed
  it. A hash table is an association list with distinct keys; its order stands for
  the iteration order of \<^verbatim>\<open>hash_seq_search\<close>.
\<close>

record Package = "PackState TransObject" +
  varHashRegular :: "(name \<times> Variable) list option"
  varHashTransact :: "(name \<times> Variable) list"

record ChangesStackNode =
  changedVarsList :: "(name \<times> name) list"
  changedPacksList :: "name list"

record pgv_state =
  packagesHash :: "(name \<times> Package) list option"
  ModuleContext :: bool
  LastPackage :: "name option"
  LastVariable :: "(name \<times> bool \<times> name) option"
  changesStack :: "ChangesStackNode list option"
  changesStackContext :: bool

type_synonym 'a result = "(pgv_error \<times> pgv_state) + ('a \<times> pgv_state)"
type_synonym outcome = "(pgv_error \<times> pgv_state) + pgv_state"

datatype TransObjectRef = TRANS_PACKAGE name | TRANS_VARIABLE name name

definition initial_state :: pgv_state where
  "initial_state = \<lparr> packagesHash = None, ModuleContext = False, LastPackage = None,
     LastVariable = None, changesStack = None, changesStackContext = False \<rparr>"

subsection \<open>Names\<close>

definition getKeyFromName :: "name \<Rightarrow> pgv_state \<Rightarrow> name result" where
  "getKeyFromName nm st =
     (if length nm \<ge> NAMEDATALEN - 1 then Inl (NameTooLong, st) else Inr (nm, st))"

subsection \<open>Reading and writing through pointers\<close>

text \<open>
  \<open>find_package\<close> and \<open>find_variable\<close> read the entry a pointer refers to;
  \<open>store_package\<close> and \<open>store_variable\<close> write it back. \<open>AList.update\<close> replaces
  the entry of an existing key in place and appends a new key, as
  \<^verbatim>\<open>hash_search(..., HASH_ENTER, ...)\<close> finds or adds.
\<close>

definition find_package :: "pgv_state \<Rightarrow> name \<Rightarrow> Package option" where
  "find_package st p = (case packagesHash st of None \<Rightarrow> None | Some h \<Rightarrow> map_of h p)"

definition store_package :: "name \<Rightarrow> Package \<Rightarrow> pgv_state \<Rightarrow> pgv_state" where
  "store_package p pk st =
     st\<lparr>packagesHash := map_option (AList.update p pk) (packagesHash st)\<rparr>"

definition pack_htab :: "Package \<Rightarrow> bool \<Rightarrow> (name \<times> Variable) list option" where
  "pack_htab pk is_trans = (if is_trans then Some (varHashTransact pk) else varHashRegular pk)"

definition store_htab :: "Package \<Rightarrow> bool \<Rightarrow> (name \<times> Variable) list \<Rightarrow> Package" where
  "store_htab pk is_trans h =
     (if is_trans then pk\<lparr>varHashTransact := h\<rparr> else pk\<lparr>varHashRegular := Some h\<rparr>)"

definition find_variable :: "pgv_state \<Rightarrow> name \<Rightarrow> bool \<Rightarrow> name \<Rightarrow> Variable option" where
  "find_variable st p is_trans v =
     (case find_package st p of
        None \<Rightarrow> None
      | Some pk \<Rightarrow> (case pack_htab pk is_trans of None \<Rightarrow> None | Some h \<Rightarrow> map_of h v))"

definition store_variable :: "name \<Rightarrow> bool \<Rightarrow> name \<Rightarrow> Variable \<Rightarrow> pgv_state \<Rightarrow> pgv_state" where
  "store_variable p is_trans v var st =
     (case find_package st p of
        None \<Rightarrow> st
      | Some pk \<Rightarrow>
          (case pack_htab pk is_trans of
             None \<Rightarrow> st
           | Some h \<Rightarrow> store_package p (store_htab pk is_trans (AList.update v var h)) st))"

text \<open>
  The \<^verbatim>\<open>TransState\<close> headers of an object's history, newest first. Only
  transactional variables are handled as \<^verbatim>\<open>TransObject\<close>s.
\<close>

definition object_states :: "pgv_state \<Rightarrow> TransObjectRef \<Rightarrow> (bool \<times> int) list option" where
  "object_states st obj =
     (case obj of
        TRANS_PACKAGE p \<Rightarrow>
          map_option (\<lambda>pk. map (\<lambda>s. (is_valid s, level s)) (states pk)) (find_package st p)
      | TRANS_VARIABLE p v \<Rightarrow>
          map_option (\<lambda>var. map (\<lambda>s. (is_valid s, level s)) (states var))
            (find_variable st p True v))"

definition update_states ::
  "TransObjectRef \<Rightarrow> (PackState list \<Rightarrow> PackState list) \<Rightarrow> (VarState list \<Rightarrow> VarState list)
     \<Rightarrow> pgv_state \<Rightarrow> pgv_state" where
  "update_states obj fp fv st =
     (case obj of
        TRANS_PACKAGE p \<Rightarrow>
          (case find_package st p of
             None \<Rightarrow> st
           | Some pk \<Rightarrow> store_package p (pk\<lparr>states := fp (states pk)\<rparr>) st)
      | TRANS_VARIABLE p v \<Rightarrow>
          (case find_variable st p True v of
             None \<Rightarrow> st
           | Some var \<Rightarrow> store_variable p True v (var\<lparr>states := fv (states var)\<rparr>) st))"

text \<open>\<^verbatim>\<open>GetActualState\<close> is \<^verbatim>\<open>dlist_head_element\<close>: undefined on an empty list.\<close>

definition GetActualState :: "pgv_state \<Rightarrow> TransObjectRef \<Rightarrow> (bool \<times> int) option" where
  "GetActualState st obj =
     (case object_states st obj of Some (s # rest) \<Rightarrow> Some s | _ \<Rightarrow> None)"

definition set_head_level :: "int \<Rightarrow> 'a TransState_scheme list \<Rightarrow> 'a TransState_scheme list" where
  "set_head_level l ss = (case ss of [] \<Rightarrow> [] | s # rest \<Rightarrow> s\<lparr>level := l\<rparr> # rest)"

definition set_head_valid :: "bool \<Rightarrow> 'a TransState_scheme list \<Rightarrow> 'a TransState_scheme list" where
  "set_head_valid b ss = (case ss of [] \<Rightarrow> [] | s # rest \<Rightarrow> s\<lparr>is_valid := b\<rparr> # rest)"

definition drop_second :: "'a list \<Rightarrow> 'a list" where
  "drop_second ss = (case ss of s # t # rest \<Rightarrow> s # rest | _ \<Rightarrow> ss)"

text \<open>
  The new state is allocated zeroed, so its level is 0; \<^verbatim>\<open>copyValue\<close> gives it a
  deep copy of the previous value and the last line of \<^verbatim>\<open>createSavepoint\<close> the
  previous validity.
\<close>

definition push_copy :: "'a TransState_scheme list \<Rightarrow> 'a TransState_scheme list" where
  "push_copy ss = (case ss of [] \<Rightarrow> [] | prev # rest \<Rightarrow> prev\<lparr>level := 0\<rparr> # ss)"

definition set_actual_level :: "TransObjectRef \<Rightarrow> int \<Rightarrow> pgv_state \<Rightarrow> pgv_state" where
  "set_actual_level obj l st = update_states obj (set_head_level l) (set_head_level l) st"

definition set_actual_valid :: "TransObjectRef \<Rightarrow> bool \<Rightarrow> pgv_state \<Rightarrow> pgv_state" where
  "set_actual_valid obj b st = update_states obj (set_head_valid b) (set_head_valid b) st"

subsection \<open>Savepoints and the changes stack\<close>

definition createSavepoint :: "TransObjectRef \<Rightarrow> pgv_state \<Rightarrow> outcome" where
  "createSavepoint obj st =
     (case GetActualState st obj of
        None \<Rightarrow> Inl (Undefined, st)
      | Some prev \<Rightarrow> Inr (update_states obj push_copy push_copy st))"

definition isObjectChangedInCurrentTrans ::
  "int \<Rightarrow> TransObjectRef \<Rightarrow> pgv_state \<Rightarrow> bool option" where
  "isObjectChangedInCurrentTrans lvl obj st =
     (if changesStack st = None then Some False
      else map_option (\<lambda>s. snd s = lvl) (GetActualState st obj))"

definition isObjectChangedInUpperTrans ::
  "int \<Rightarrow> TransObjectRef \<Rightarrow> pgv_state \<Rightarrow> bool option" where
  "isObjectChangedInUpperTrans lvl obj st =
     (case object_states st obj of
        Some (cur # prev # rest) \<Rightarrow> Some (snd prev = lvl - 1)
      | Some [cur] \<Rightarrow> Some False
      | _ \<Rightarrow> None)"

definition empty_node :: ChangesStackNode where
  "empty_node = \<lparr> changedVarsList = [], changedPacksList = [] \<rparr>"

definition pushChangesStack :: "pgv_state \<Rightarrow> pgv_state" where
  "pushChangesStack st =
     st\<lparr> changesStackContext := True,
         changesStack := Some (empty_node # (case changesStack st of None \<Rightarrow> [] | Some cs \<Rightarrow> cs)) \<rparr>"

primrec push_levels :: "nat \<Rightarrow> pgv_state \<Rightarrow> pgv_state" where
  "push_levels 0 st = st"
| "push_levels (Suc n) st = push_levels n (pushChangesStack st)"

definition prepareChangesStack :: "int \<Rightarrow> pgv_state \<Rightarrow> pgv_state" where
  "prepareChangesStack lvl st =
     (if changesStack st = None then push_levels (nat lvl) st else st)"

definition push_changed :: "TransObjectRef \<Rightarrow> ChangesStackNode \<Rightarrow> ChangesStackNode" where
  "push_changed obj csn =
     (case obj of
        TRANS_PACKAGE p \<Rightarrow> csn\<lparr>changedPacksList := p # changedPacksList csn\<rparr>
      | TRANS_VARIABLE p v \<Rightarrow> csn\<lparr>changedVarsList := (p, v) # changedVarsList csn\<rparr>)"

text \<open>
  \<^verbatim>\<open>get_actual_changes_list\<close> reads the head of the stack; with no stack (nesting
  level 0) or an empty one that is undefined.
\<close>

definition addToChangesStack :: "int \<Rightarrow> TransObjectRef \<Rightarrow> pgv_state \<Rightarrow> outcome" where
  "addToChangesStack lvl obj st0 =
     (let st = prepareChangesStack lvl st0 in
      case isObjectChangedInCurrentTrans lvl obj st of
        None \<Rightarrow> Inl (Undefined, st)
      | Some True \<Rightarrow> Inr st
      | Some False \<Rightarrow>
          (case changesStack st of
             Some (csn # rest) \<Rightarrow>
               Inr (set_actual_level obj lvl
                      (st\<lparr>changesStack := Some (push_changed obj csn # rest)\<rparr>))
           | _ \<Rightarrow> Inl (Undefined, st)))"

text \<open>
  \<^verbatim>\<open>removeFromChangedVars\<close> works on the head of the stack: it unlinks every variable
  of the package from the list of changed variables and the first node of the package
  from the list of changed packages.
\<close>

definition removeFromChangedVars :: "name \<Rightarrow> ChangesStackNode \<Rightarrow> ChangesStackNode" where
  "removeFromChangedVars p csn =
     csn\<lparr> changedVarsList := filter (\<lambda>pv. fst pv \<noteq> p) (changedVarsList csn),
          changedPacksList := remove1 p (changedPacksList csn) \<rparr>"

text \<open>
  \<^verbatim>\<open>removeObject\<close> frees every state of the object and removes its hash entry. For
  a package it first tests \<^verbatim>\<open>dlist_is_empty(changesStack)\<close>, which reads through the
  stack pointer.
\<close>

definition removeObject :: "TransObjectRef \<Rightarrow> pgv_state \<Rightarrow> outcome" where
  "removeObject obj st =
     (case obj of
        TRANS_PACKAGE p \<Rightarrow>
          (case changesStack st of
             None \<Rightarrow> Inl (Undefined, st)
           | Some cs \<Rightarrow>
               (let st1 = (case cs of
                             [] \<Rightarrow> st
                           | csn # rest \<Rightarrow>
                               st\<lparr>changesStack := Some (removeFromChangedVars p csn # rest)\<rparr>)
                in case find_package st1 p of
                     None \<Rightarrow> Inl (Undefined, st1)
                   | Some pk \<Rightarrow>
                       Inr (st1\<lparr>packagesHash :=
                                  map_option (AList.delete p) (packagesHash st1)\<rparr>)))
      | TRANS_VARIABLE p v \<Rightarrow>
          (case find_package st p of
             None \<Rightarrow> Inl (Undefined, st)
           | Some pk \<Rightarrow>
               (case map_of (varHashTransact pk) v of
                  None \<Rightarrow> Inl (Undefined, st)
                | Some var \<Rightarrow>
                    Inr (store_package p
                           (pk\<lparr>varHashTransact := AList.delete v (varHashTransact pk)\<rparr>) st))))"

definition makePackHTAB :: "name \<Rightarrow> bool \<Rightarrow> pgv_state \<Rightarrow> pgv_state" where
  "makePackHTAB p is_trans st =
     (case find_package st p of
        None \<Rightarrow> st
      | Some pk \<Rightarrow> store_package p (store_htab pk is_trans []) st)"

text \<open>
  Rollback. A package loses its head state only when that state is invalid, and then
  gets a fresh, empty table of regular variables; a variable always loses its head
  state and is removed when no state is left.
\<close>

definition rollbackSavepoint :: "TransObjectRef \<Rightarrow> pgv_state \<Rightarrow> outcome" where
  "rollbackSavepoint obj st =
     (case GetActualState st obj of
        None \<Rightarrow> Inl (Undefined, st)
      | Some s \<Rightarrow>
          (case obj of
             TRANS_PACKAGE p \<Rightarrow>
               (if \<not> fst s then Inr (makePackHTAB p False (update_states obj tl tl st))
                else Inr st)
           | TRANS_VARIABLE p v \<Rightarrow>
               (let st1 = update_states obj tl tl st in
                if object_states st1 obj = Some [] then removeObject obj st1 else Inr st1)))"

text \<open>
  Release. The \<^verbatim>\<open>Assert\<close> on the head's level is compiled out of production builds
  and is not part of the model.
\<close>

definition releaseSavepoint :: "TransObjectRef \<Rightarrow> pgv_state \<Rightarrow> outcome" where
  "releaseSavepoint obj st =
     (case GetActualState st obj of
        None \<Rightarrow> Inl (Undefined, st)
      | Some s0 \<Rightarrow>
          (let st1 = update_states obj drop_second drop_second st in
           case object_states st1 obj of
             Some [s] \<Rightarrow>
               (if \<not> fst s then removeObject obj st1
                else Inr (set_actual_level obj (snd s - 1) st1))
           | Some (s # t # rest) \<Rightarrow> Inr (set_actual_level obj (snd s - 1) st1)
           | _ \<Rightarrow> Inl (Undefined, st1)))"

subsection \<open>Finishing a nesting level\<close>

datatype Action = RELEASE_SAVEPOINT | ROLLBACK_TO_SAVEPOINT

text \<open>
  The body of the loop of \<^verbatim>\<open>processChanges\<close> for one listed object. On release, a
  variable whose package is invalid is invalidated first. Then either the previous
  state is dropped (no frame is left, or the object already changed at the parent
  level), or the object is listed in the parent's frame; both decrement the level
  of the head state.
\<close>

definition mark_removed_with_package :: "TransObjectRef \<Rightarrow> pgv_state \<Rightarrow> outcome" where
  "mark_removed_with_package obj st =
     (case obj of
        TRANS_PACKAGE p \<Rightarrow> Inr st
      | TRANS_VARIABLE p v \<Rightarrow>
          (case GetActualState st (TRANS_PACKAGE p) of
             None \<Rightarrow> Inl (Undefined, st)
           | Some ps \<Rightarrow>
               (if \<not> fst ps then
                  (case GetActualState st obj of
                     None \<Rightarrow> Inl (Undefined, st)
                   | Some s \<Rightarrow> Inr (set_actual_valid obj False st))
                else Inr st)))"

definition release_object :: "int \<Rightarrow> TransObjectRef \<Rightarrow> pgv_state \<Rightarrow> outcome" where
  "release_object lvl obj st0 =
     (case mark_removed_with_package obj st0 of
        Inl e \<Rightarrow> Inl e
      | Inr st \<Rightarrow>
          (case changesStack st of
             None \<Rightarrow> Inl (Undefined, st)
           | Some [] \<Rightarrow> releaseSavepoint obj st
           | Some (csn # rest) \<Rightarrow>
               (case isObjectChangedInUpperTrans lvl obj st of
                  None \<Rightarrow> Inl (Undefined, st)
                | Some True \<Rightarrow> releaseSavepoint obj st
                | Some False \<Rightarrow>
                    (case GetActualState st obj of
                       None \<Rightarrow> Inl (Undefined, st)
                     | Some s \<Rightarrow>
                         Inr (set_actual_level obj (snd s - 1)
                                (st\<lparr>changesStack := Some (push_changed obj csn # rest)\<rparr>))))))"

definition process_object :: "Action \<Rightarrow> int \<Rightarrow> TransObjectRef \<Rightarrow> pgv_state \<Rightarrow> outcome" where
  "process_object action lvl obj st =
     (case action of
        ROLLBACK_TO_SAVEPOINT \<Rightarrow> rollbackSavepoint obj st
      | RELEASE_SAVEPOINT \<Rightarrow> release_object lvl obj st)"

fun process_list :: "Action \<Rightarrow> int \<Rightarrow> TransObjectRef list \<Rightarrow> pgv_state \<Rightarrow> outcome" where
  "process_list action lvl [] st = Inr st"
| "process_list action lvl (obj # objs) st =
     (case process_object action lvl obj st of
        Inl e \<Rightarrow> Inl e
      | Inr st1 \<Rightarrow> process_list action lvl objs st1)"

text \<open>
  After the loop: the stack is freed when it is empty, and the whole module is reset
  when the table of packages has no entry.
\<close>

definition finish_changes :: "pgv_state \<Rightarrow> outcome" where
  "finish_changes st =
     (case changesStack st of
        None \<Rightarrow> Inl (Undefined, st)
      | Some cs \<Rightarrow>
          (let st1 = (if cs = []
                      then st\<lparr>changesStack := None, changesStackContext := False\<rparr> else st)
           in case packagesHash st1 of
                None \<Rightarrow> Inl (Undefined, st1)
              | Some h \<Rightarrow> (if h = [] then Inr initial_state else Inr st1)))"

definition processChanges :: "Action \<Rightarrow> int \<Rightarrow> pgv_state \<Rightarrow> outcome" where
  "processChanges action lvl st =
     (case changesStack st of
        Some (bottom_list # rest) \<Rightarrow>
          (case process_list action lvl
                  (map (\<lambda>pv. TRANS_VARIABLE (fst pv) (snd pv)) (changedVarsList bottom_list))
                  (st\<lparr>changesStack := Some rest\<rparr>) of
             Inl e \<Rightarrow> Inl e
           | Inr st1 \<Rightarrow>
               (case process_list action lvl
                       (map TRANS_PACKAGE (changedPacksList bottom_list)) st1 of
                  Inl e \<Rightarrow> Inl e
                | Inr st2 \<Rightarrow> finish_changes st2))
      | _ \<Rightarrow> Inl (Undefined, st))"

text \<open>
  The callbacks. \<open>lvl\<close> is what \<^verbatim>\<open>GetCurrentTransactionNestLevel()\<close> returns while
  the callback runs: the level that starts, commits or aborts (1 for the top-level
  transaction).
\<close>

datatype SubXactEvent =
    SUBXACT_EVENT_START_SUB | SUBXACT_EVENT_COMMIT_SUB
  | SUBXACT_EVENT_ABORT_SUB | SUBXACT_EVENT_PRE_COMMIT_SUB

datatype XactEvent =
    XACT_EVENT_COMMIT | XACT_EVENT_PARALLEL_COMMIT | XACT_EVENT_ABORT
  | XACT_EVENT_PARALLEL_ABORT | XACT_EVENT_PREPARE | XACT_EVENT_PRE_COMMIT
  | XACT_EVENT_PARALLEL_PRE_COMMIT | XACT_EVENT_PRE_PREPARE

definition pgvSubTransCallback :: "SubXactEvent \<Rightarrow> int \<Rightarrow> pgv_state \<Rightarrow> outcome" where
  "pgvSubTransCallback event lvl st =
     (if changesStack st \<noteq> None then
        (case event of
           SUBXACT_EVENT_START_SUB \<Rightarrow> Inr (pushChangesStack st)
         | SUBXACT_EVENT_COMMIT_SUB \<Rightarrow> processChanges RELEASE_SAVEPOINT lvl st
         | SUBXACT_EVENT_ABORT_SUB \<Rightarrow> processChanges ROLLBACK_TO_SAVEPOINT lvl st
         | SUBXACT_EVENT_PRE_COMMIT_SUB \<Rightarrow> Inr st)
      else Inr st)"

definition pgvTransCallback :: "XactEvent \<Rightarrow> int \<Rightarrow> pgv_state \<Rightarrow> outcome" where
  "pgvTransCallback event lvl st =
     (if changesStack st \<noteq> None then
        (case event of
           XACT_EVENT_PRE_COMMIT \<Rightarrow> processChanges RELEASE_SAVEPOINT lvl st
         | XACT_EVENT_ABORT \<Rightarrow> processChanges ROLLBACK_TO_SAVEPOINT lvl st
         | XACT_EVENT_PARALLEL_PRE_COMMIT \<Rightarrow> processChanges RELEASE_SAVEPOINT lvl st
         | XACT_EVENT_PARALLEL_ABORT \<Rightarrow> processChanges ROLLBACK_TO_SAVEPOINT lvl st
         | _ \<Rightarrow> Inr st)
      else Inr st)"

subsection \<open>Packages and variables\<close>

text \<open>
  The block
  \<^verbatim>\<open>if (!isObjectChangedInCurrentTrans(o)) { createSavepoint(o, t); addToChangesStack(o, t); }\<close>
  is written out in \<^verbatim>\<open>getPackageByName\<close>, \<^verbatim>\<open>removePackageInternal\<close>,
  \<^verbatim>\<open>remove_variable\<close>, \<^verbatim>\<open>variable_insert\<close>, \<^verbatim>\<open>variable_update\<close> and
  \<^verbatim>\<open>variable_delete\<close>; the model names it once.
\<close>

definition register_change :: "int \<Rightarrow> TransObjectRef \<Rightarrow> pgv_state \<Rightarrow> outcome" where
  "register_change lvl obj st =
     (case isObjectChangedInCurrentTrans lvl obj st of
        None \<Rightarrow> Inl (Undefined, st)
      | Some True \<Rightarrow> Inr st
      | Some False \<Rightarrow>
          (case createSavepoint obj st of
             Inl e \<Rightarrow> Inl e
           | Inr st1 \<Rightarrow> addToChangesStack lvl obj st1))"

definition ensurePackagesHashExists :: "pgv_state \<Rightarrow> pgv_state" where
  "ensurePackagesHashExists st =
     (if packagesHash st \<noteq> None then st
      else st\<lparr>ModuleContext := True, packagesHash := Some []\<rparr>)"

text \<open>
  The loop of \<^verbatim>\<open>getPackageByName\<close> over the transactional variables of a package
  that is created again after its removal.
\<close>

fun mark_all_removed :: "int \<Rightarrow> name \<Rightarrow> name list \<Rightarrow> pgv_state \<Rightarrow> outcome" where
  "mark_all_removed lvl p [] st = Inr st"
| "mark_all_removed lvl p (v # vs) st =
     (case register_change lvl (TRANS_VARIABLE p v) st of
        Inl e \<Rightarrow> Inl e
      | Inr st1 \<Rightarrow>
          (case GetActualState st1 (TRANS_VARIABLE p v) of
             None \<Rightarrow> Inl (Undefined, st1)
           | Some s \<Rightarrow>
               mark_all_removed lvl p vs (set_actual_valid (TRANS_VARIABLE p v) False st1)))"

definition new_package :: Package where
  "new_package = \<lparr> states = [\<lparr> is_valid = True, level = 0 \<rparr>],
     varHashRegular = Some [], varHashTransact = [] \<rparr>"

definition recreate_package :: "int \<Rightarrow> name \<Rightarrow> pgv_state \<Rightarrow> name option result" where
  "recreate_package lvl key st =
     (case register_change lvl (TRANS_PACKAGE key) st of
        Inl e \<Rightarrow> Inl e
      | Inr st1 \<Rightarrow>
          (case GetActualState st1 (TRANS_PACKAGE key) of
             None \<Rightarrow> Inl (Undefined, st1)
           | Some s \<Rightarrow>
               (let st2 = makePackHTAB key False (set_actual_valid (TRANS_PACKAGE key) True st1) in
                case find_package st2 key of
                  None \<Rightarrow> Inl (Undefined, st2)
                | Some pk \<Rightarrow>
                    (case mark_all_removed lvl key (map fst (varHashTransact pk)) st2 of
                       Inl e \<Rightarrow> Inl e
                     | Inr st3 \<Rightarrow> Inr (Some key, st3)))))"

definition getPackageByName ::
  "int \<Rightarrow> name \<Rightarrow> bool \<Rightarrow> bool \<Rightarrow> pgv_state \<Rightarrow> name option result" where
  "getPackageByName lvl nm create strict st0 =
     (case getKeyFromName nm st0 of
        Inl e \<Rightarrow> Inl e
      | Inr (key, st) \<Rightarrow>
          (if \<not> create \<and> packagesHash st = None then
             (if strict then Inl (UnrecognizedPackage, st) else Inr (None, st))
           else
             (let st1 = (if create then ensurePackagesHashExists st else st) in
              case find_package st1 key of
                Some pk \<Rightarrow>
                  (case GetActualState st1 (TRANS_PACKAGE key) of
                     None \<Rightarrow> Inl (Undefined, st1)
                   | Some s \<Rightarrow>
                       (if fst s then Inr (Some key, st1)
                        else if create then recreate_package lvl key st1
                        else if strict then Inl (UnrecognizedPackage, st1)
                        else Inr (None, st1)))
              | None \<Rightarrow>
                  (if \<not> create then
                     (if strict then Inl (UnrecognizedPackage, st1) else Inr (None, st1))
                   else
                     (case addToChangesStack lvl (TRANS_PACKAGE key)
                             (store_package key new_package st1) of
                        Inl e \<Rightarrow> Inl e
                      | Inr st2 \<Rightarrow> Inr (Some key, st2))))))"

text \<open>
  A pointer to a variable: the key of its package, whether it is in the table of
  transactional variables, and its own key.
\<close>

type_synonym VariableRef = "name \<times> bool \<times> name"

definition search_both :: "Package \<Rightarrow> name \<Rightarrow> (bool \<times> Variable) option option" where
  "search_both pk key =
     (case varHashRegular pk of
        None \<Rightarrow> None
      | Some hr \<Rightarrow>
          Some (case map_of hr key of
                  Some var \<Rightarrow> Some (False, var)
                | None \<Rightarrow> map_option (Pair True) (map_of (varHashTransact pk) key)))"

definition getVariableInternal ::
  "name \<Rightarrow> name \<Rightarrow> Oid \<Rightarrow> bool \<Rightarrow> pgv_state \<Rightarrow> VariableRef option result" where
  "getVariableInternal package nm typ strict st0 =
     (case getKeyFromName nm st0 of
        Inl e \<Rightarrow> Inl e
      | Inr (key, st) \<Rightarrow>
          (case find_package st package of
             None \<Rightarrow> Inl (Undefined, st)
           | Some pk \<Rightarrow>
               (case search_both pk key of
                  None \<Rightarrow> Inl (Undefined, st)
                | Some None \<Rightarrow>
                    (if strict then Inl (UnrecognizedVariable, st) else Inr (None, st))
                | Some (Some (tbl, var)) \<Rightarrow>
                    (if typid var \<noteq> typ then Inl (RequiresValue (typid var), st)
                     else
                       (case states var of
                          [] \<Rightarrow> Inl (Undefined, st)
                        | s # rest \<Rightarrow>
                            (if \<not> is_valid s \<and> strict then Inl (UnrecognizedVariable, st)
                             else Inr (Some (package, tbl, key), st)))))))"

definition new_variable :: "Oid \<Rightarrow> bool \<Rightarrow> Variable" where
  "new_variable typ is_trans =
     \<lparr> states = [\<lparr> is_valid = False, level = 0,
                    val = (if typ \<noteq> RECORDOID then scalar \<lparr> scalar_value = 0, is_null = True \<rparr>
                           else record_val \<lparr> tupdesc = None, rhash = [] \<rparr>) \<rparr>],
       typid = typ, is_transactional = is_trans \<rparr>"

definition update_variable :: "VariableRef \<Rightarrow> (Variable \<Rightarrow> Variable) \<Rightarrow> pgv_state \<Rightarrow> pgv_state" where
  "update_variable r f st =
     (case r of (p, tbl, v) \<Rightarrow>
        (case find_variable st p tbl v of
           None \<Rightarrow> st
         | Some var \<Rightarrow> store_variable p tbl v (f var) st))"

text \<open>\<^verbatim>\<open>GetActualState(variable)->is_valid = true\<close> at the end of \<^verbatim>\<open>createVariableInternal\<close>.\<close>

definition validate_variable :: "VariableRef \<Rightarrow> pgv_state \<Rightarrow> outcome" where
  "validate_variable r st =
     (case r of (p, tbl, v) \<Rightarrow>
        (case find_variable st p tbl v of
           None \<Rightarrow> Inl (Undefined, st)
         | Some var \<Rightarrow>
             (if states var = [] then Inl (Undefined, st)
              else Inr (update_variable r (\<lambda>x. x\<lparr>states := set_head_valid True (states x)\<rparr>) st))))"

text \<open>
  The part of \<^verbatim>\<open>createVariableInternal\<close> after the reverse check: find or enter
  the variable in its own table, check the type and create the savepoint (existing
  variable) or initialise the entry (new variable).
\<close>

definition enter_variable ::
  "int \<Rightarrow> name \<Rightarrow> name \<Rightarrow> Oid \<Rightarrow> bool \<Rightarrow> pgv_state \<Rightarrow> outcome" where
  "enter_variable lvl package key typ is_trans st =
     (case find_package st package of
        None \<Rightarrow> Inl (Undefined, st)
      | Some pk \<Rightarrow>
          (case pack_htab pk is_trans of
             None \<Rightarrow> Inl (Undefined, st)
           | Some own \<Rightarrow>
               (case map_of own key of
                  Some var \<Rightarrow>
                    (if typid var \<noteq> typ then Inl (RequiresValue (typid var), st)
                     else if is_trans then
                       (case isObjectChangedInCurrentTrans lvl (TRANS_VARIABLE package key) st of
                          None \<Rightarrow> Inl (Undefined, st)
                        | Some True \<Rightarrow> Inr st
                        | Some False \<Rightarrow> createSavepoint (TRANS_VARIABLE package key) st)
                     else Inr st)
                | None \<Rightarrow>
                    Inr (store_variable package is_trans key (new_variable typ is_trans) st))))"

definition createVariableInternal ::
  "int \<Rightarrow> name \<Rightarrow> name \<Rightarrow> Oid \<Rightarrow> bool \<Rightarrow> pgv_state \<Rightarrow> VariableRef result" where
  "createVariableInternal lvl package nm typ is_trans st0 =
     (case getKeyFromName nm st0 of
        Inl e \<Rightarrow> Inl e
      | Inr (key, st) \<Rightarrow>
          (case find_package st package of
             None \<Rightarrow> Inl (Undefined, st)
           | Some pk \<Rightarrow>
               (case pack_htab pk (\<not> is_trans) of
                  None \<Rightarrow> Inl (Undefined, st)
                | Some other \<Rightarrow>
                    (if map_of other key \<noteq> None then Inl (AlreadyCreatedAs (\<not> is_trans), st)
                     else
                       (case enter_variable lvl package key typ is_trans st of
                          Inl e \<Rightarrow> Inl e
                        | Inr st1 \<Rightarrow>
                            (case validate_variable (package, is_trans, key) st1 of
                               Inl e \<Rightarrow> Inl e
                             | Inr st2 \<Rightarrow>
                                 (if is_trans then
                                    (case addToChangesStack lvl (TRANS_VARIABLE package key) st2 of
                                       Inl e \<Rightarrow> Inl e
                                     | Inr st3 \<Rightarrow> Inr ((package, is_trans, key), st3))
                                  else Inr ((package, is_trans, key), st2))))))))"

text \<open>
  \<^verbatim>\<open>GetActualValue(variable)\<close>: the value of the head state. Reading the union as a
  scalar when it holds a record, or the other way round, is undefined.
\<close>

definition GetActualValue :: "pgv_state \<Rightarrow> VariableRef \<Rightarrow> VarValue option" where
  "GetActualValue st r =
     (case r of (p, tbl, v) \<Rightarrow>
        (case find_variable st p tbl v of
           None \<Rightarrow> None
         | Some var \<Rightarrow> (case states var of [] \<Rightarrow> None | s # rest \<Rightarrow> Some (val s))))"

definition set_actual_value :: "VariableRef \<Rightarrow> VarValue \<Rightarrow> pgv_state \<Rightarrow> pgv_state" where
  "set_actual_value r x st =
     update_variable r
       (\<lambda>var. var\<lparr>states := (case states var of [] \<Rightarrow> [] | s # rest \<Rightarrow> s\<lparr>val := x\<rparr> # rest)\<rparr>) st"

definition variable_set ::
  "int \<Rightarrow> name \<Rightarrow> name \<Rightarrow> Oid \<Rightarrow> Datum \<Rightarrow> bool \<Rightarrow> bool \<Rightarrow> pgv_state \<Rightarrow> outcome" where
  "variable_set lvl package_name var_name typ v v_is_null is_trans st =
     (case getPackageByName lvl package_name True False st of
        Inl e \<Rightarrow> Inl e
      | Inr (None, st1) \<Rightarrow> Inl (Undefined, st1)
      | Inr (Some package, st1) \<Rightarrow>
          (case createVariableInternal lvl package var_name typ is_trans st1 of
             Inl e \<Rightarrow> Inl e
           | Inr (variable, st2) \<Rightarrow>
               (case GetActualValue st2 variable of
                  Some (scalar sc) \<Rightarrow>
                    Inr (set_actual_value variable
                           (scalar (sc\<lparr> is_null := v_is_null,
                                       scalar_value := (if v_is_null then 0 else v) \<rparr>)) st2)
                | _ \<Rightarrow> Inl (Undefined, st2))))"

text \<open>The result of \<^verbatim>\<open>variable_get\<close> is \<open>None\<close> for SQL NULL.\<close>

definition variable_get ::
  "int \<Rightarrow> name \<Rightarrow> name \<Rightarrow> Oid \<Rightarrow> bool \<Rightarrow> pgv_state \<Rightarrow> Datum option result" where
  "variable_get lvl package_name var_name typ strict st =
     (case getPackageByName lvl package_name False strict st of
        Inl e \<Rightarrow> Inl e
      | Inr (None, st1) \<Rightarrow> Inr (None, st1)
      | Inr (Some package, st1) \<Rightarrow>
          (case getVariableInternal package var_name typ strict st1 of
             Inl e \<Rightarrow> Inl e
           | Inr (None, st2) \<Rightarrow> Inr (None, st2)
           | Inr (Some variable, st2) \<Rightarrow>
               (case GetActualValue st2 variable of
                  Some (scalar sc) \<Rightarrow>
                    Inr (if is_null sc then None else Some (scalar_value sc), st2)
                | _ \<Rightarrow> Inl (Undefined, st2))))"

definition variable_exists :: "int \<Rightarrow> name \<Rightarrow> name \<Rightarrow> pgv_state \<Rightarrow> bool result" where
  "variable_exists lvl package_name var_name st =
     (case getPackageByName lvl package_name False False st of
        Inl e \<Rightarrow> Inl e
      | Inr (None, st1) \<Rightarrow> Inr (False, st1)
      | Inr (Some package, st1) \<Rightarrow>
          (case getKeyFromName var_name st1 of
             Inl e \<Rightarrow> Inl e
           | Inr (key, st2) \<Rightarrow>
               (case find_package st2 package of
                  None \<Rightarrow> Inl (Undefined, st2)
                | Some pk \<Rightarrow>
                    (case search_both pk key of
                       None \<Rightarrow> Inl (Undefined, st2)
                     | Some None \<Rightarrow> Inr (False, st2)
                     | Some (Some (tbl, var)) \<Rightarrow>
                         (case states var of
                            [] \<Rightarrow> Inl (Undefined, st2)
                          | s # rest \<Rightarrow> Inr (is_valid s, st2))))))"

definition package_exists :: "int \<Rightarrow> name \<Rightarrow> pgv_state \<Rightarrow> bool result" where
  "package_exists lvl package_name st =
     (case getPackageByName lvl package_name False False st of
        Inl e \<Rightarrow> Inl e
      | Inr (r, st1) \<Rightarrow> Inr (r \<noteq> None, st1))"

definition removePackageInternal :: "int \<Rightarrow> name \<Rightarrow> pgv_state \<Rightarrow> outcome" where
  "removePackageInternal lvl p st =
     (case find_package st p of
        None \<Rightarrow> Inl (Undefined, st)
      | Some pk \<Rightarrow>
          (if varHashRegular pk = None then Inl (Undefined, st)
           else
             (case register_change lvl (TRANS_PACKAGE p)
                     (store_package p (pk\<lparr>varHashRegular := None\<rparr>) st) of
                Inl e \<Rightarrow> Inl e
              | Inr st1 \<Rightarrow>
                  (case GetActualState st1 (TRANS_PACKAGE p) of
                     None \<Rightarrow> Inl (Undefined, st1)
                   | Some s \<Rightarrow> Inr (set_actual_valid (TRANS_PACKAGE p) False st1)))))"

definition remove_package :: "int \<Rightarrow> name \<Rightarrow> pgv_state \<Rightarrow> outcome" where
  "remove_package lvl package_name st =
     (case getPackageByName lvl package_name False True st of
        Inl e \<Rightarrow> Inl e
      | Inr (None, st1) \<Rightarrow>
          (case getKeyFromName package_name st1 of
             Inl e \<Rightarrow> Inl e
           | Inr (key, st2) \<Rightarrow> Inl (UnrecognizedPackage, st2))
      | Inr (Some package, st1) \<Rightarrow>
          (case removePackageInternal lvl package st1 of
             Inl e \<Rightarrow> Inl e
           | Inr st2 \<Rightarrow> Inr (st2\<lparr>LastPackage := None, LastVariable := None\<rparr>)))"

definition remove_variable :: "int \<Rightarrow> name \<Rightarrow> name \<Rightarrow> pgv_state \<Rightarrow> outcome" where
  "remove_variable lvl package_name var_name st =
     (case getPackageByName lvl package_name False True st of
        Inl e \<Rightarrow> Inl e
      | Inr (None, st1) \<Rightarrow> Inl (Undefined, st1)
      | Inr (Some package, st1) \<Rightarrow>
          (case getKeyFromName var_name st1 of
             Inl e \<Rightarrow> Inl e
           | Inr (key, st2) \<Rightarrow>
               (case find_package st2 package of
                  None \<Rightarrow> Inl (Undefined, st2)
                | Some pk \<Rightarrow>
                    (case varHashRegular pk of
                       None \<Rightarrow> Inl (Undefined, st2)
                     | Some hr \<Rightarrow>
                         (if map_of hr key \<noteq> None then
                            Inr (store_package package
                                   (pk\<lparr>varHashRegular := Some (AList.delete key hr)\<rparr>) st2
                                 \<lparr>LastVariable := None\<rparr>)
                          else if map_of (varHashTransact pk) key = None then
                            Inl (UnrecognizedVariable, st2)
                          else
                            (case register_change lvl (TRANS_VARIABLE package key) st2 of
                               Inl e \<Rightarrow> Inl e
                             | Inr st3 \<Rightarrow>
                                 (case GetActualState st3 (TRANS_VARIABLE package key) of
                                    None \<Rightarrow> Inl (Undefined, st3)
                                  | Some s \<Rightarrow>
                                      Inr (set_actual_valid (TRANS_VARIABLE package key) False st3
                                           \<lparr>LastVariable := None\<rparr>))))))))"

subsection \<open>Record variables and the cache of the last package and variable\<close>

text \<open>
  The storage of records (\<^verbatim>\<open>init_record\<close>, \<^verbatim>\<open>check_attributes\<close>,
  \<^verbatim>\<open>check_record_key\<close>, \<^verbatim>\<open>insert_record\<close>, \<^verbatim>\<open>update_record\<close>,
  \<^verbatim>\<open>delete_record\<close>) is not part of this file; the functions that call it take it
  as a parameter. A result \<open>None\<close> or \<open>False\<close> of a check stands for an error raised
  there.
\<close>

record RecordApi =
  init_record :: "TupleDesc \<Rightarrow> RecordVar option"
  check_attributes :: "RecordVar \<Rightarrow> TupleDesc \<Rightarrow> bool"
  check_record_key :: "RecordVar \<Rightarrow> Oid \<Rightarrow> bool"
  insert_record :: "RecordVar \<Rightarrow> HeapTuple \<Rightarrow> RecordVar option"
  update_record :: "RecordVar \<Rightarrow> HeapTuple \<Rightarrow> (bool \<times> RecordVar) option"
  delete_record :: "RecordVar \<Rightarrow> Datum option \<Rightarrow> (bool \<times> RecordVar) option"

text \<open>
  ``Get cached package'': the block that opens \<^verbatim>\<open>variable_insert\<close>,
  \<^verbatim>\<open>variable_update\<close> and \<^verbatim>\<open>variable_delete\<close>. The comparison reads the name
  through \<^verbatim>\<open>LastPackage\<close>.
\<close>

definition get_cached_package ::
  "int \<Rightarrow> name \<Rightarrow> bool \<Rightarrow> bool \<Rightarrow> pgv_state \<Rightarrow> name result" where
  "get_cached_package lvl package_name create strict st =
     (let slow = (case getPackageByName lvl package_name create strict st of
                    Inl e \<Rightarrow> Inl e
                  | Inr (None, st1) \<Rightarrow> Inl (Undefined, st1)
                  | Inr (Some p, st1) \<Rightarrow>
                      Inr (p, st1\<lparr>LastPackage := Some p, LastVariable := None\<rparr>))
      in case LastPackage st of
           None \<Rightarrow> slow
         | Some lp \<Rightarrow>
             (case find_package st lp of
                None \<Rightarrow> Inl (Undefined, st)
              | Some pk \<Rightarrow> (if package_name = lp then Inr (lp, st) else slow)))"

text \<open>``Get cached variable'' of \<^verbatim>\<open>variable_update\<close> and \<^verbatim>\<open>variable_delete\<close>.\<close>

definition get_cached_variable :: "name \<Rightarrow> name \<Rightarrow> pgv_state \<Rightarrow> VariableRef result" where
  "get_cached_variable package var_name st =
     (let slow = (case getVariableInternal package var_name RECORDOID True st of
                    Inl e \<Rightarrow> Inl e
                  | Inr (None, st1) \<Rightarrow> Inl (Undefined, st1)
                  | Inr (Some r, st1) \<Rightarrow> Inr (r, st1\<lparr>LastVariable := Some r\<rparr>))
      in case LastVariable st of
           None \<Rightarrow> slow
         | Some (lp, tbl, lv) \<Rightarrow>
             (case find_variable st lp tbl lv of
                None \<Rightarrow> Inl (Undefined, st)
              | Some var \<Rightarrow> (if var_name = lv then Inr ((lp, tbl, lv), st) else slow)))"

text \<open>
  The savepoint that \<^verbatim>\<open>variable_update\<close>, \<^verbatim>\<open>variable_delete\<close> and the cached
  branch of \<^verbatim>\<open>variable_insert\<close> take before they touch the records.
\<close>

definition savepoint_if_transactional :: "int \<Rightarrow> VariableRef \<Rightarrow> pgv_state \<Rightarrow> outcome" where
  "savepoint_if_transactional lvl r st =
     (case r of (p, tbl, v) \<Rightarrow>
        (case find_variable st p tbl v of
           None \<Rightarrow> Inl (Undefined, st)
         | Some var \<Rightarrow>
             (if is_transactional var then register_change lvl (TRANS_VARIABLE p v) st
              else Inr st)))"

text \<open>``Get cached variable'' of \<^verbatim>\<open>variable_insert\<close>.\<close>

definition get_cached_variable_insert ::
  "int \<Rightarrow> name \<Rightarrow> name \<Rightarrow> bool \<Rightarrow> pgv_state \<Rightarrow> VariableRef result" where
  "get_cached_variable_insert lvl package var_name is_trans st =
     (let slow = (case createVariableInternal lvl package var_name RECORDOID is_trans st of
                    Inl e \<Rightarrow> Inl e
                  | Inr (r, st1) \<Rightarrow> Inr (r, st1\<lparr>LastVariable := Some r\<rparr>))
      in case LastVariable st of
           None \<Rightarrow> slow
         | Some (lp, tbl, lv) \<Rightarrow>
             (case find_variable st lp tbl lv of
                None \<Rightarrow> Inl (Undefined, st)
              | Some var \<Rightarrow>
                  (if var_name \<noteq> lv then slow
                   else if is_transactional var \<noteq> is_trans then
                     (case getKeyFromName var_name st of
                        Inl e \<Rightarrow> Inl e
                      | Inr (key, st1) \<Rightarrow> Inl (AlreadyCreatedAs (is_transactional var), st1))
                   else
                     (case savepoint_if_transactional lvl (lp, tbl, lv) st of
                        Inl e \<Rightarrow> Inl e
                      | Inr st1 \<Rightarrow> Inr ((lp, tbl, lv), st1)))))"

definition variable_insert ::
  "RecordApi \<Rightarrow> int \<Rightarrow> name \<Rightarrow> name \<Rightarrow> TupleDesc \<times> HeapTuple \<Rightarrow> bool \<Rightarrow> pgv_state \<Rightarrow> outcome" where
  "variable_insert api lvl package_name var_name rec is_trans st =
     (case get_cached_package lvl package_name True False st of
        Inl e \<Rightarrow> Inl e
      | Inr (package, st1) \<Rightarrow>
          (case get_cached_variable_insert lvl package var_name is_trans st1 of
             Inl e \<Rightarrow> Inl e
           | Inr (variable, st2) \<Rightarrow>
               (case GetActualValue st2 variable of
                  Some (record_val r) \<Rightarrow>
                    (case (if tupdesc r = None then init_record api (fst rec)
                           else if check_attributes api r (fst rec) then Some r else None) of
                       None \<Rightarrow> Inl (RecordError, st2)
                     | Some r1 \<Rightarrow>
                         (let st3 = set_actual_value variable (record_val r1) st2 in
                          case insert_record api r1 (snd rec) of
                            None \<Rightarrow> Inl (RecordError, st3)
                          | Some r2 \<Rightarrow> Inr (set_actual_value variable (record_val r2) st3)))
                | _ \<Rightarrow> Inl (Undefined, st2))))"

definition variable_update ::
  "RecordApi \<Rightarrow> int \<Rightarrow> name \<Rightarrow> name \<Rightarrow> TupleDesc \<times> HeapTuple \<Rightarrow> pgv_state \<Rightarrow> bool result" where
  "variable_update api lvl package_name var_name rec st =
     (case get_cached_package lvl package_name False True st of
        Inl e \<Rightarrow> Inl e
      | Inr (package, st1) \<Rightarrow>
          (case get_cached_variable package var_name st1 of
             Inl e \<Rightarrow> Inl e
           | Inr (variable, st2) \<Rightarrow>
               (case savepoint_if_transactional lvl variable st2 of
                  Inl e \<Rightarrow> Inl e
                | Inr st3 \<Rightarrow>
                    (case GetActualValue st3 variable of
                       Some (record_val r) \<Rightarrow>
                         (if \<not> check_attributes api r (fst rec) then Inl (RecordError, st3)
                          else
                            (case update_record api r (snd rec) of
                               None \<Rightarrow> Inl (RecordError, st3)
                             | Some (res, r1) \<Rightarrow>
                                 Inr (res, set_actual_value variable (record_val r1) st3)))
                     | _ \<Rightarrow> Inl (Undefined, st3)))))"

definition variable_delete ::
  "RecordApi \<Rightarrow> int \<Rightarrow> name \<Rightarrow> name \<Rightarrow> (Oid \<times> Datum) option \<Rightarrow> pgv_state \<Rightarrow> bool result" where
  "variable_delete api lvl package_name var_name key st =
     (case get_cached_package lvl package_name False True st of
        Inl e \<Rightarrow> Inl e
      | Inr (package, st1) \<Rightarrow>
          (case get_cached_variable package var_name st1 of
             Inl e \<Rightarrow> Inl e
           | Inr (variable, st2) \<Rightarrow>
               (case savepoint_if_transactional lvl variable st2 of
                  Inl e \<Rightarrow> Inl e
                | Inr st3 \<Rightarrow>
                    (case GetActualValue st3 variable of
                       Some (record_val r) \<Rightarrow>
                         (if (case key of None \<Rightarrow> False
                                | Some k \<Rightarrow> \<not> check_record_key api r (fst k))
                          then Inl (RecordError, st3)
                          else
                            (case delete_record api r (map_option snd key) of
                               None \<Rightarrow> Inl (RecordError, st3)
                             | Some (res, r1) \<Rightarrow>
                                 Inr (res, set_actual_value variable (record_val r1) st3)))
                     | _ \<Rightarrow> Inl (Undefined, st3)))))"

subsection \<open>Running the module on concrete inputs\<close>

text \<open>
  A sequence of calls, as the host makes them one after the other; an error ends it, as
  an uncaught \<^verbatim>\<open>ERROR\<close> ends the statement.
\<close>

fun run_calls :: "(pgv_state \<Rightarrow> outcome) list \<Rightarrow> pgv_state \<Rightarrow> outcome" where
  "run_calls [] st = Inr st"
| "run_calls (f # fs) st =
     (case f st of Inl e \<Rightarrow> Inl e | Inr st1 \<Rightarrow> run_calls fs st1)"

text \<open>
  A small instance of the record storage for evaluating the record functions: rows are
  kept in a list, the descriptor must stay the same, nothing else is checked.
\<close>

definition list_api :: RecordApi where
  "list_api = \<lparr> init_record = (\<lambda>td. Some \<lparr> tupdesc = Some td, rhash = [] \<rparr>),
     check_attributes = (\<lambda>r td. tupdesc r = Some td),
     check_record_key = (\<lambda>r t. True),
     insert_record = (\<lambda>r t. Some (r\<lparr>rhash := t # rhash r\<rparr>)),
     update_record = (\<lambda>r t. Some (True, r)),
     delete_record = (\<lambda>r k. Some (True, r)) \<rparr>"

text \<open>The state the module is in after a sequence of calls made from the start.\<close>

definition state_after :: "(pgv_state \<Rightarrow> outcome) list \<Rightarrow> pgv_state" where
  "state_after calls =
     (case run_calls calls initial_state of Inr st \<Rightarrow> st | Inl (e, st) \<Rightarrow> st)"

text \<open>
  Sample states for evaluating the functions. In the first a transaction has set the
  transactional variable \<open>x\<close> and the regular variable \<open>y\<close> of package \<open>p\<close> and has
  committed.
\<close>

definition two_variables_committed :: pgv_state where
  "two_variables_committed =
     state_after [variable_set 1 ''p'' ''x'' 23 7 False True,
                  variable_set 1 ''p'' ''y'' 23 8 False False,
                  pgvTransCallback XACT_EVENT_PRE_COMMIT 1]"

text \<open>A transaction has created package \<open>p\<close> with a variable and removed the package.\<close>

definition created_and_removed :: pgv_state where
  "created_and_removed =
     state_after [variable_set 1 ''p'' ''x'' 23 7 False True, remove_package 1 ''p'']"

text \<open>
  A committed variable is set again in a subtransaction of a transaction that has not
  touched it: the stack has two frames, the variable is listed in the upper one.
\<close>

definition changed_in_subtransaction :: pgv_state where
  "changed_in_subtransaction =
     state_after [variable_set 1 ''p'' ''x'' 23 1 False True,
                  pgvTransCallback XACT_EVENT_PRE_COMMIT 1,
                  pgvSubTransCallback SUBXACT_EVENT_START_SUB 2,
                  variable_set 2 ''p'' ''x'' 23 2 False True]"

text \<open>
  The committed variable \<open>x\<close> is set to 9 by the next transaction, which then starts a
  subtransaction.
\<close>

definition changed_then_subtransaction :: pgv_state where
  "changed_then_subtransaction =
     state_after [variable_set 1 ''p'' ''x'' 23 7 False True,
                  variable_set 1 ''p'' ''y'' 23 8 False False,
                  pgvTransCallback XACT_EVENT_PRE_COMMIT 1,
                  variable_set 1 ''p'' ''x'' 23 9 False True,
                  pgvSubTransCallback SUBXACT_EVENT_START_SUB 2]"

text \<open>
  A transaction creates package \<open>p\<close> with the variable \<open>x\<close>; its subtransaction sets
  \<open>x\<close> again and creates package \<open>q\<close> with the variable \<open>z\<close>. The frame of level 2
  lists both variables and \<open>q\<close>, the frame of level 1 lists \<open>x\<close> and \<open>p\<close>.
\<close>

definition changed_in_two_packages :: pgv_state where
  "changed_in_two_packages =
     state_after [variable_set 1 ''p'' ''x'' 23 1 False True,
                  pgvSubTransCallback SUBXACT_EVENT_START_SUB 2,
                  variable_set 2 ''p'' ''x'' 23 2 False True,
                  variable_set 2 ''q'' ''z'' 23 3 False True]"

text \<open>
  The variables \<open>x\<close> and \<open>y\<close> of package \<open>p\<close> are committed. The next transaction sets
  \<open>x\<close>, creates the variable \<open>z\<close> and removes the package.
\<close>

definition changed_created_removed :: pgv_state where
  "changed_created_removed =
     state_after [variable_set 1 ''p'' ''x'' 23 7 False True,
                  variable_set 1 ''p'' ''y'' 23 8 False False,
                  pgvTransCallback XACT_EVENT_PRE_COMMIT 1,
                  variable_set 1 ''p'' ''x'' 23 9 False True,
                  variable_set 1 ''p'' ''z'' 23 3 False True,
                  remove_package 1 ''p'']"

text \<open>
  A committed record variable is removed in a transaction; a subtransaction inserts
  into it again and aborts. The cache still points to the variable.
\<close>

definition removed_then_reinserted :: pgv_state where
  "removed_then_reinserted =
     state_after [variable_insert list_api 1 ''p'' ''r'' ([23], [1]) True,
                  pgvTransCallback XACT_EVENT_PRE_COMMIT 1,
                  remove_variable 1 ''p'' ''r'',
                  pgvSubTransCallback SUBXACT_EVENT_START_SUB 2,
                  variable_insert list_api 2 ''p'' ''r'' ([23], [2]) True,
                  pgvSubTransCallback SUBXACT_EVENT_ABORT_SUB 2]"

subsection \<open>Histories and frames, as the statements read them\<close>




section \<open>Properties\<close>

subsection \<open>Evaluation and the tables\<close>

lemma push_levels_numeral:
  "push_levels (numeral k) st = push_levels (pred_numeral k) (pushChangesStack st)"
  by (simp add: numeral_eq_Suc)

lemmas pgv_eval =
  getKeyFromName_def NAMEDATALEN_def RECORDOID_def initial_state_def find_package_def
  store_package_def pack_htab_def store_htab_def find_variable_def store_variable_def
  object_states_def update_states_def GetActualState_def set_head_level_def set_head_valid_def
  drop_second_def push_copy_def set_actual_level_def set_actual_valid_def createSavepoint_def
  isObjectChangedInCurrentTrans_def isObjectChangedInUpperTrans_def empty_node_def
  pushChangesStack_def prepareChangesStack_def push_changed_def addToChangesStack_def
  removeFromChangedVars_def removeObject_def makePackHTAB_def rollbackSavepoint_def
  releaseSavepoint_def mark_removed_with_package_def release_object_def process_object_def
  finish_changes_def processChanges_def pgvSubTransCallback_def pgvTransCallback_def
  register_change_def ensurePackagesHashExists_def new_package_def recreate_package_def
  getPackageByName_def search_both_def getVariableInternal_def new_variable_def
  update_variable_def validate_variable_def enter_variable_def createVariableInternal_def
  GetActualValue_def set_actual_value_def variable_set_def variable_get_def
  variable_exists_def package_exists_def removePackageInternal_def remove_package_def
  remove_variable_def get_cached_package_def get_cached_variable_def
  savepoint_if_transactional_def get_cached_variable_insert_def variable_insert_def
  variable_update_def variable_delete_def list_api_def Let_def push_levels_numeral

lemmas pgv_sym = pgv_eval update_conv' delete_conv'

lemmas pgv_samples = state_after_def two_variables_committed_def created_and_removed_def
  changed_in_subtransaction_def removed_then_reinserted_def changed_in_two_packages_def
  changed_created_removed_def changed_then_subtransaction_def

lemma update_update_same: "AList.update k v (AList.update k w al) = AList.update k v al"
  by (induction al) auto

lemma find_package_SomeD:
  "find_package st p = Some pk \<Longrightarrow> \<exists>h. packagesHash st = Some h \<and> map_of h p = Some pk"
  by (auto simp: find_package_def split: option.splits)

lemma object_states_packD:
  assumes "object_states st (TRANS_PACKAGE p) = Some (s # rest)"
  obtains h pk s0 rest0 where "packagesHash st = Some h" "map_of h p = Some pk"
    "states pk = s0 # rest0" "s = (is_valid s0, level s0)"
    "rest = map (\<lambda>s. (is_valid s, level s)) rest0"
  using assms
  by (auto simp: object_states_def find_package_def split: option.splits)

lemma object_states_varD:
  assumes "object_states st (TRANS_VARIABLE p x) = Some (s # rest)"
  obtains h pk var s0 rest0 where "packagesHash st = Some h" "map_of h p = Some pk"
    "map_of (varHashTransact pk) x = Some var"
    "states var = s0 # rest0" "s = (is_valid s0, level s0)"
    "rest = map (\<lambda>s. (is_valid s, level s)) rest0"
  using assms
  by (auto simp: object_states_def find_package_def find_variable_def pack_htab_def
      split: option.splits)

lemma push_levels_eq:
  "push_levels n st
     = (if n = 0 then st
        else st\<lparr>changesStackContext := True,
                changesStack := Some (replicate n empty_node
                   @ (case changesStack st of None \<Rightarrow> [] | Some cs \<Rightarrow> cs))\<rparr>)"
  by (induction n arbitrary: st) (auto simp: pushChangesStack_def replicate_app_Cons_same)

lemma prepare_fresh:
  assumes "0 < lvl" and "changesStack st = None"
  shows "prepareChangesStack lvl st
           = st\<lparr>changesStackContext := True,
                 changesStack := Some (empty_node # replicate (nat lvl - 1) empty_node)\<rparr>"
proof -
  obtain m where m: "nat lvl = Suc m" using assms(1) by (cases "nat lvl") auto
  show ?thesis
    using assms(2) by (simp add: prepareChangesStack_def push_levels_eq m)
qed

lemma prepare_present:
  "changesStack st \<noteq> None \<Longrightarrow> prepareChangesStack lvl st = st"
  by (auto simp: prepareChangesStack_def)

lemma getPackageByName_valid:
  assumes "find_package st p = Some pk" and "states pk = s # rest" and "is_valid s"
    and "length p < NAMEDATALEN - 1"
  shows "getPackageByName lvl p create strict st = Inr (Some p, st)"
  using assms
  by (auto simp: getPackageByName_def getKeyFromName_def ensurePackagesHashExists_def
      GetActualState_def object_states_def Let_def dest!: find_package_SomeD
      split: option.splits)

lemma two_variables_committed_eq:
  "two_variables_committed =
     \<lparr>packagesHash = Some [(''p'',
        \<lparr>states = [\<lparr>is_valid = True, level = 0\<rparr>],
         varHashRegular = Some [(''y'',
           \<lparr>states = [\<lparr>is_valid = True, level = 0,
                        val = scalar \<lparr>scalar_value = 8, is_null = False\<rparr>\<rparr>],
            typid = 23, is_transactional = False\<rparr>)],
         varHashTransact = [(''x'',
           \<lparr>states = [\<lparr>is_valid = True, level = 0,
                        val = scalar \<lparr>scalar_value = 7, is_null = False\<rparr>\<rparr>],
            typid = 23, is_transactional = True\<rparr>)]\<rparr>)],
      ModuleContext = True, LastPackage = None, LastVariable = None,
      changesStack = None, changesStackContext = False\<rparr>"
  by (simp add: pgv_eval pgv_samples)

subsection \<open>Names that are too long\<close>

lemma getKeyFromName_long:
  "NAMEDATALEN - 1 \<le> length nm \<Longrightarrow> getKeyFromName nm st = Inl (NameTooLong, st)"
  by (simp add: getKeyFromName_def)

lemma getPackageByName_long:
  "NAMEDATALEN - 1 \<le> length nm \<Longrightarrow>
   getPackageByName lvl nm create strict st = Inl (NameTooLong, st)"
  by (simp add: getPackageByName_def getKeyFromName_long)

lemma get_cached_package_long:
  assumes "NAMEDATALEN - 1 \<le> length nm"
    and "\<forall>lp. LastPackage st = Some lp \<longrightarrow> find_package st lp \<noteq> None \<and> lp \<noteq> nm"
  shows "get_cached_package lvl nm create strict st = Inl (NameTooLong, st)"
  using assms
  by (auto simp: get_cached_package_def getPackageByName_long Let_def split: option.splits)

text \<open>
  C10, as the claim states it, fails: \<^verbatim>\<open>variable_exists\<close> answers \<open>False\<close> for a
  variable name of 63 bytes when the package is unknown, without looking at the
  variable name, and nothing is raised.
\<close>

theorem variable_name_not_checked_counterexample:
  "NAMEDATALEN - 1 \<le> length (replicate 63 (CHR ''a''))
   \<and> variable_exists 1 ''p'' (replicate 63 (CHR ''a'')) initial_state
       = Inr (False, initial_state)"
  by (simp add: variable_exists_def getPackageByName_def getKeyFromName_def NAMEDATALEN_def
      initial_state_def)

text \<open>
  The name of the variable. With a valid package every operation reaches the check of
  the variable name and fails there; \<^verbatim>\<open>variable_insert\<close>, \<^verbatim>\<open>variable_update\<close> and
  \<^verbatim>\<open>variable_delete\<close> have put the package into the cache by then. With an unknown
  package the lookups that are not strict return before the check, and
  \<^verbatim>\<open>variable_set\<close> has created the package when it fails.
\<close>

lemma variable_name_checked_second:
  assumes "length p < NAMEDATALEN - 1" and "NAMEDATALEN - 1 \<le> length x"
    and "find_package st p = Some pk" and "states pk = s # rest" and "is_valid s"
  shows "variable_set lvl p x ty v n tr st = Inl (NameTooLong, st)"
    and "variable_get lvl p x ty strict st = Inl (NameTooLong, st)"
    and "variable_exists lvl p x st = Inl (NameTooLong, st)"
    and "remove_variable lvl p x st = Inl (NameTooLong, st)"
proof -
  have g: "\<And>create strict. getPackageByName lvl p create strict st = Inr (Some p, st)"
    using assms(3,4,5,1) by (rule getPackageByName_valid)
  have k: "\<And>st'. getKeyFromName x st' = Inl (NameTooLong, st')"
    using assms(2) by (simp add: getKeyFromName_def)
  show "variable_set lvl p x ty v n tr st = Inl (NameTooLong, st)"
    by (simp add: variable_set_def g createVariableInternal_def k)
  show "variable_get lvl p x ty strict st = Inl (NameTooLong, st)"
    by (simp add: variable_get_def g getVariableInternal_def k)
  show "variable_exists lvl p x st = Inl (NameTooLong, st)"
    by (simp add: variable_exists_def g k)
  show "remove_variable lvl p x st = Inl (NameTooLong, st)"
    by (simp add: remove_variable_def g k)
qed

lemma record_operations_check_variable_name:
  assumes "length p < NAMEDATALEN - 1" and "NAMEDATALEN - 1 \<le> length x"
    and "find_package st p = Some pk" and "states pk = s # rest" and "is_valid s"
  shows "(\<forall>lp. LastPackage st = Some lp \<longrightarrow> find_package st lp \<noteq> None \<and> lp \<noteq> p) \<Longrightarrow>
           variable_insert api lvl p x rec tr st
             = Inl (NameTooLong, st\<lparr>LastPackage := Some p, LastVariable := None\<rparr>)
         \<and> variable_update api lvl p x rec st
             = Inl (NameTooLong, st\<lparr>LastPackage := Some p, LastVariable := None\<rparr>)
         \<and> variable_delete api lvl p x k st
             = Inl (NameTooLong, st\<lparr>LastPackage := Some p, LastVariable := None\<rparr>)"
    and "LastPackage st = Some p \<Longrightarrow>
         (\<forall>lp tbl lv. LastVariable st = Some (lp, tbl, lv) \<longrightarrow>
              find_variable st lp tbl lv \<noteq> None \<and> lv \<noteq> x) \<Longrightarrow>
           variable_insert api lvl p x rec tr st = Inl (NameTooLong, st)
         \<and> variable_update api lvl p x rec st = Inl (NameTooLong, st)
         \<and> variable_delete api lvl p x k st = Inl (NameTooLong, st)"
proof -
  have g: "\<And>create strict. getPackageByName lvl p create strict st = Inr (Some p, st)"
    using assms(3,4,5,1) by (rule getPackageByName_valid)
  have k: "\<And>st'. getKeyFromName x st' = Inl (NameTooLong, st')"
    using assms(2) by (simp add: getKeyFromName_def)
  have slow: "get_cached_package lvl p create strict st
                = Inr (p, st\<lparr>LastPackage := Some p, LastVariable := None\<rparr>)"
    if "\<forall>lp. LastPackage st = Some lp \<longrightarrow> find_package st lp \<noteq> None \<and> lp \<noteq> p"
    for create strict
    using that by (auto simp: get_cached_package_def g Let_def split: option.splits)
  show "variable_insert api lvl p x rec tr st
             = Inl (NameTooLong, st\<lparr>LastPackage := Some p, LastVariable := None\<rparr>)
         \<and> variable_update api lvl p x rec st
             = Inl (NameTooLong, st\<lparr>LastPackage := Some p, LastVariable := None\<rparr>)
         \<and> variable_delete api lvl p x k st
             = Inl (NameTooLong, st\<lparr>LastPackage := Some p, LastVariable := None\<rparr>)"
    if "\<forall>lp. LastPackage st = Some lp \<longrightarrow> find_package st lp \<noteq> None \<and> lp \<noteq> p"
    by (simp add: variable_insert_def variable_update_def variable_delete_def slow [OF that]
        get_cached_variable_insert_def get_cached_variable_def createVariableInternal_def
        getVariableInternal_def k)
  have hit: "get_cached_package lvl p create strict st = Inr (p, st)"
    if "LastPackage st = Some p" for create strict
    using that assms(3) by (simp add: get_cached_package_def Let_def)
  show "variable_insert api lvl p x rec tr st = Inl (NameTooLong, st)
         \<and> variable_update api lvl p x rec st = Inl (NameTooLong, st)
         \<and> variable_delete api lvl p x k st = Inl (NameTooLong, st)"
    if c: "LastPackage st = Some p"
      and v: "\<forall>lp tbl lv. LastVariable st = Some (lp, tbl, lv) \<longrightarrow>
              find_variable st lp tbl lv \<noteq> None \<and> lv \<noteq> x"
  proof (cases "LastVariable st")
    case None
    then show ?thesis
      by (simp add: variable_insert_def variable_update_def variable_delete_def hit [OF c]
          get_cached_variable_insert_def get_cached_variable_def createVariableInternal_def
          getVariableInternal_def k)
  next
    case (Some r)
    obtain lp tbl lv where r: "r = (lp, tbl, lv)" by (cases r)
    with Some v obtain var where "find_variable st lp tbl lv = Some var" "lv \<noteq> x" by auto
    with Some r show ?thesis
      by (simp add: variable_insert_def variable_update_def variable_delete_def hit [OF c]
          get_cached_variable_insert_def get_cached_variable_def createVariableInternal_def
          getVariableInternal_def k)
  qed
qed

lemma unknown_package_hides_variable_name:
  assumes "length p < NAMEDATALEN - 1" and "find_package st p = None"
  shows "variable_get lvl p x ty False st = Inr (None, st)"
    and "variable_exists lvl p x st = Inr (False, st)"
  using assms
  by (simp_all add: variable_get_def variable_exists_def getPackageByName_def
      getKeyFromName_def)

lemma variable_set_creates_package_first:
  assumes "length p < NAMEDATALEN - 1" and "NAMEDATALEN - 1 \<le> length x"
    and "find_package st p = None" and "changesStack st \<noteq> Some []" and "0 < lvl"
  shows "\<exists>st'. variable_set lvl p x ty v n tr st = Inl (NameTooLong, st')
           \<and> object_states st' (TRANS_PACKAGE p) = Some [(True, lvl)]"
proof -
  have k: "\<And>st'. getKeyFromName x st' = Inl (NameTooLong, st')"
    using assms(2) by (simp add: getKeyFromName_def)
  have kp: "\<And>st'. getKeyFromName p st' = Inr (p, st')"
    using assms(1) by (simp add: getKeyFromName_def)
  show ?thesis
  proof (cases "changesStack st")
    case None
    then show ?thesis
      using assms(1,3,5)
      by (cases "packagesHash st")
         (simp_all add: variable_set_def getPackageByName_def kp createVariableInternal_def k
           ensurePackagesHashExists_def find_package_def store_package_def addToChangesStack_def
           prepare_fresh isObjectChangedInCurrentTrans_def GetActualState_def object_states_def
           new_package_def set_actual_level_def update_states_def set_head_level_def
           push_changed_def update_conv' Let_def del: prepareChangesStack_def)
  next
    case (Some cs)
    then obtain c cs' where "cs = c # cs'" using assms(4) by (cases cs) auto
    then show ?thesis
      using assms(1,3,5) Some
      by (cases "packagesHash st")
         (simp_all add: variable_set_def getPackageByName_def kp createVariableInternal_def k
           ensurePackagesHashExists_def find_package_def store_package_def addToChangesStack_def
           prepare_present isObjectChangedInCurrentTrans_def GetActualState_def object_states_def
           new_package_def set_actual_level_def update_states_def set_head_level_def
           push_changed_def update_conv' Let_def)
  qed
qed

text \<open>
  C10, amended: \<^verbatim>\<open>getKeyFromName\<close> rejects a name of 63 bytes or more and accepts a
  name of at most 62 bytes. Every operation that takes a package name checks that name
  first: when it is too long the operation fails with \<open>NameTooLong\<close> in an unchanged
  state (the record operations first compare it with the name of the cached package,
  which is a live package of another name). A variable name is checked only once the
  package has been resolved. With a valid package \<open>p\<close> and a variable name \<open>x\<close> that is
  too long, every operation fails with \<open>NameTooLong\<close> in an unchanged state; only the
  record operations, when \<open>p\<close> was not the cached package, have made it the cached
  package (a cached variable is a live variable, and its name is not \<open>x\<close>). With an
  unknown package the lookups that are not strict answer without a look at \<open>x\<close>,
  and \<^verbatim>\<open>variable_set\<close> fails after it has created the package.
\<close>

theorem package_name_checked_first:
  assumes "NAMEDATALEN - 1 \<le> length pn"
  shows "getKeyFromName nm st = (if length nm \<le> 62 then Inr (nm, st) else Inl (NameTooLong, st))
       \<and> variable_set lvl pn vn ty v n tr st = Inl (NameTooLong, st)
       \<and> variable_get lvl pn vn ty strict st = Inl (NameTooLong, st)
       \<and> variable_exists lvl pn vn st = Inl (NameTooLong, st)
       \<and> package_exists lvl pn st = Inl (NameTooLong, st)
       \<and> remove_variable lvl pn vn st = Inl (NameTooLong, st)
       \<and> remove_package lvl pn st = Inl (NameTooLong, st)
       \<and> ((\<forall>lp. LastPackage st = Some lp \<longrightarrow> find_package st lp \<noteq> None \<and> lp \<noteq> pn) \<longrightarrow>
            variable_insert api lvl pn vn rec tr st = Inl (NameTooLong, st)
          \<and> variable_update api lvl pn vn rec st = Inl (NameTooLong, st)
          \<and> variable_delete api lvl pn vn k st = Inl (NameTooLong, st))
       \<and> (length p < NAMEDATALEN - 1 \<and> NAMEDATALEN - 1 \<le> length x
            \<and> find_package st p = Some pk \<and> states pk = s # rest \<and> is_valid s \<longrightarrow>
            variable_set lvl p x ty v n tr st = Inl (NameTooLong, st)
          \<and> variable_get lvl p x ty strict st = Inl (NameTooLong, st)
          \<and> variable_exists lvl p x st = Inl (NameTooLong, st)
          \<and> remove_variable lvl p x st = Inl (NameTooLong, st)
          \<and> ((\<forall>lp. LastPackage st = Some lp \<longrightarrow> find_package st lp \<noteq> None \<and> lp \<noteq> p) \<longrightarrow>
                variable_insert api lvl p x rec tr st
                  = Inl (NameTooLong, st\<lparr>LastPackage := Some p, LastVariable := None\<rparr>)
              \<and> variable_update api lvl p x rec st
                  = Inl (NameTooLong, st\<lparr>LastPackage := Some p, LastVariable := None\<rparr>)
              \<and> variable_delete api lvl p x k st
                  = Inl (NameTooLong, st\<lparr>LastPackage := Some p, LastVariable := None\<rparr>))
          \<and> (LastPackage st = Some p
               \<and> (\<forall>lp tbl lv. LastVariable st = Some (lp, tbl, lv) \<longrightarrow>
                      find_variable st lp tbl lv \<noteq> None \<and> lv \<noteq> x) \<longrightarrow>
                variable_insert api lvl p x rec tr st = Inl (NameTooLong, st)
              \<and> variable_update api lvl p x rec st = Inl (NameTooLong, st)
              \<and> variable_delete api lvl p x k st = Inl (NameTooLong, st)))
       \<and> (length p < NAMEDATALEN - 1 \<and> NAMEDATALEN - 1 \<le> length x
            \<and> find_package st p = None \<longrightarrow>
            variable_get lvl p x ty False st = Inr (None, st)
          \<and> variable_exists lvl p x st = Inr (False, st)
          \<and> (changesStack st \<noteq> Some [] \<and> 0 < lvl \<longrightarrow>
                (\<exists>st'. variable_set lvl p x ty v n tr st = Inl (NameTooLong, st')
                   \<and> object_states st' (TRANS_PACKAGE p) = Some [(True, lvl)])))"
proof -
  have "getKeyFromName nm st = (if length nm \<le> 62 then Inr (nm, st) else Inl (NameTooLong, st))"
    by (simp add: getKeyFromName_def NAMEDATALEN_def)
  moreover have "variable_set lvl pn vn ty v n tr st = Inl (NameTooLong, st)"
    using assms by (simp add: variable_set_def getPackageByName_long)
  moreover have "variable_get lvl pn vn ty strict st = Inl (NameTooLong, st)"
    using assms by (simp add: variable_get_def getPackageByName_long)
  moreover have "variable_exists lvl pn vn st = Inl (NameTooLong, st)"
    using assms by (simp add: variable_exists_def getPackageByName_long)
  moreover have "package_exists lvl pn st = Inl (NameTooLong, st)"
    using assms by (simp add: package_exists_def getPackageByName_long)
  moreover have "remove_variable lvl pn vn st = Inl (NameTooLong, st)"
    using assms by (simp add: remove_variable_def getPackageByName_long)
  moreover have "remove_package lvl pn st = Inl (NameTooLong, st)"
    using assms by (simp add: remove_package_def getPackageByName_long)
  moreover have "variable_insert api lvl pn vn rec tr st = Inl (NameTooLong, st)"
    "variable_update api lvl pn vn rec st = Inl (NameTooLong, st)"
    "variable_delete api lvl pn vn k st = Inl (NameTooLong, st)"
    if "\<forall>lp. LastPackage st = Some lp \<longrightarrow> find_package st lp \<noteq> None \<and> lp \<noteq> pn"
    using assms that
    by (simp_all add: variable_insert_def variable_update_def variable_delete_def
        get_cached_package_long)
  moreover have "variable_set lvl p x ty v n tr st = Inl (NameTooLong, st)
          \<and> variable_get lvl p x ty strict st = Inl (NameTooLong, st)
          \<and> variable_exists lvl p x st = Inl (NameTooLong, st)
          \<and> remove_variable lvl p x st = Inl (NameTooLong, st)
          \<and> ((\<forall>lp. LastPackage st = Some lp \<longrightarrow> find_package st lp \<noteq> None \<and> lp \<noteq> p) \<longrightarrow>
                variable_insert api lvl p x rec tr st
                  = Inl (NameTooLong, st\<lparr>LastPackage := Some p, LastVariable := None\<rparr>)
              \<and> variable_update api lvl p x rec st
                  = Inl (NameTooLong, st\<lparr>LastPackage := Some p, LastVariable := None\<rparr>)
              \<and> variable_delete api lvl p x k st
                  = Inl (NameTooLong, st\<lparr>LastPackage := Some p, LastVariable := None\<rparr>))
          \<and> (LastPackage st = Some p
               \<and> (\<forall>lp tbl lv. LastVariable st = Some (lp, tbl, lv) \<longrightarrow>
                      find_variable st lp tbl lv \<noteq> None \<and> lv \<noteq> x) \<longrightarrow>
                variable_insert api lvl p x rec tr st = Inl (NameTooLong, st)
              \<and> variable_update api lvl p x rec st = Inl (NameTooLong, st)
              \<and> variable_delete api lvl p x k st = Inl (NameTooLong, st))"
    if "length p < NAMEDATALEN - 1" "NAMEDATALEN - 1 \<le> length x"
      "find_package st p = Some pk" "states pk = s # rest" "is_valid s"
    using variable_name_checked_second [OF that]
      record_operations_check_variable_name [OF that, of api lvl rec tr k]
    by simp
  moreover have "variable_get lvl p x ty False st = Inr (None, st)
          \<and> variable_exists lvl p x st = Inr (False, st)
          \<and> (changesStack st \<noteq> Some [] \<and> 0 < lvl \<longrightarrow>
                (\<exists>st'. variable_set lvl p x ty v n tr st = Inl (NameTooLong, st')
                   \<and> object_states st' (TRANS_PACKAGE p) = Some [(True, lvl)]))"
    if "length p < NAMEDATALEN - 1" "NAMEDATALEN - 1 \<le> length x" "find_package st p = None"
    using unknown_package_hides_variable_name [OF that(1,3)]
      variable_set_creates_package_first [OF that] by simp
  ultimately show ?thesis by blast
qed

theorem package_name_checked_first_witness:
  "NAMEDATALEN - 1 \<le> length (replicate 63 (CHR ''a''))
   \<and> LastPackage initial_state = None
   \<and> variable_set 1 (replicate 63 (CHR ''a'')) ''x'' 23 5 False True initial_state
       = Inl (NameTooLong, initial_state)
   \<and> variable_insert list_api 1 (replicate 63 (CHR ''a'')) ''x'' ([23], [5]) True initial_state
       = Inl (NameTooLong, initial_state)
   \<and> getKeyFromName (replicate 62 (CHR ''a'')) initial_state
       = Inr (replicate 62 (CHR ''a''), initial_state)
   \<and> variable_exists 1 ''p'' ''x'' two_variables_committed = Inr (True, two_variables_committed)
   \<and> LastPackage two_variables_committed = None
   \<and> variable_set 1 ''p'' (replicate 63 (CHR ''a'')) 23 5 False True two_variables_committed
       = Inl (NameTooLong, two_variables_committed)
   \<and> variable_get 1 ''p'' (replicate 63 (CHR ''a'')) 23 False two_variables_committed
       = Inl (NameTooLong, two_variables_committed)
   \<and> variable_exists 1 ''p'' (replicate 63 (CHR ''a'')) two_variables_committed
       = Inl (NameTooLong, two_variables_committed)
   \<and> remove_variable 1 ''p'' (replicate 63 (CHR ''a'')) two_variables_committed
       = Inl (NameTooLong, two_variables_committed)
   \<and> variable_update list_api 1 ''p'' (replicate 63 (CHR ''a'')) ([23], [5])
         two_variables_committed
       = Inl (NameTooLong,
              two_variables_committed\<lparr>LastPackage := Some ''p'', LastVariable := None\<rparr>)
   \<and> LastPackage removed_then_reinserted = Some ''p''
   \<and> LastVariable removed_then_reinserted = Some (''p'', True, ''r'')
   \<and> variable_update list_api 1 ''p'' (replicate 63 (CHR ''a'')) ([23], [5])
         removed_then_reinserted
       = Inl (NameTooLong, removed_then_reinserted)
   \<and> find_package initial_state ''p'' = None
   \<and> variable_get 1 ''p'' (replicate 63 (CHR ''a'')) 23 False initial_state
       = Inr (None, initial_state)
   \<and> (\<exists>st'. variable_set 1 ''p'' (replicate 63 (CHR ''a'')) 23 5 False True initial_state
                = Inl (NameTooLong, st')
          \<and> object_states st' (TRANS_PACKAGE ''p'') = Some [(True, 1)])"
proof -
  let ?l = "replicate 63 (CHR ''a'')"
  let ?pk = "\<lparr>states = [\<lparr>is_valid = True, level = 0\<rparr>],
         varHashRegular = Some [(''y'',
           \<lparr>states = [\<lparr>is_valid = True, level = 0,
                        val = scalar \<lparr>scalar_value = 8, is_null = False\<rparr>\<rparr>],
            typid = 23, is_transactional = False\<rparr>)],
         varHashTransact = [(''x'',
           \<lparr>states = [\<lparr>is_valid = True, level = 0,
                        val = scalar \<lparr>scalar_value = 7, is_null = False\<rparr>\<rparr>],
            typid = 23, is_transactional = True\<rparr>)]\<rparr>"
  have h: "NAMEDATALEN - 1 \<le> length ?l" "length ''p'' < NAMEDATALEN - 1"
    by (simp_all add: NAMEDATALEN_def)
  have c: "\<forall>lp. LastPackage initial_state = Some lp \<longrightarrow>
         find_package initial_state lp \<noteq> None \<and> lp \<noteq> ?l"
    "find_package initial_state ''p'' = None" "changesStack initial_state \<noteq> Some []"
    "LastPackage initial_state = None"
    by (simp_all add: initial_state_def find_package_def)
  have t: "find_package two_variables_committed ''p'' = Some ?pk"
    "LastPackage two_variables_committed = None"
    "variable_exists 1 ''p'' ''x'' two_variables_committed = Inr (True, two_variables_committed)"
    by (simp_all add: two_variables_committed_eq pgv_eval)
  let ?S = removed_then_reinserted
  let ?qk = "the (find_package ?S ''p'')"
  have ne: "''r'' \<noteq> ?l"
  proof
    assume "''r'' = ?l"
    then have "length ''r'' = length ?l" by (rule arg_cong)
    then show False by simp
  qed
  have r: "find_package ?S ''p'' = Some ?qk" "states ?qk = hd (states ?qk) # tl (states ?qk)"
    "is_valid (hd (states ?qk))" "LastPackage ?S = Some ''p''"
    "LastVariable ?S = Some (''p'', True, ''r'')"
    "\<forall>lp tbl lv. LastVariable ?S = Some (lp, tbl, lv) \<longrightarrow>
        find_variable ?S lp tbl lv \<noteq> None \<and> lv \<noteq> ?l"
    using ne by (simp_all add: pgv_eval pgv_samples)
  have u: "variable_update list_api 1 ''p'' ?l ([23], [5]) ?S = Inl (NameTooLong, ?S)"
    using package_name_checked_first [OF h(1), where st = ?S and lvl = 1
        and api = list_api and rec = "([23], [5])" and p = "''p''" and x = ?l and pk = ?qk
        and s = "hd (states ?qk)" and rest = "tl (states ?qk)"]
      h r(1,2,3,4,6)
    by simp
  show ?thesis
    using h(1) c(2,4) t(2,3) r(4,5) u
      package_name_checked_first [OF h(1), where nm = "replicate 62 (CHR ''a'')"
        and st = initial_state and lvl = 1 and vn = "''x''" and ty = 23 and v = 5
        and n = False and tr = True and strict = False and api = list_api
        and rec = "([23], [5])" and p = "''p''" and x = ?l]
      package_name_checked_first [OF h(1), where st = two_variables_committed and lvl = 1
        and ty = 23 and v = 5 and n = False and tr = True and strict = False
        and api = list_api and rec = "([23], [5])" and p = "''p''" and x = ?l and pk = ?pk
        and s = "\<lparr>is_valid = True, level = 0\<rparr>" and rest = "[]"]
      h c(1,3) t(1)
    by simp
qed

subsection \<open>Abort of a subtransaction, commit of the transaction\<close>

text \<open>
  C1. Let no change be pending (\<^verbatim>\<open>changesStack\<close> is \<^verbatim>\<open>NULL\<close>), let the package, if it
  exists, be valid and have no regular variable \<open>x\<close>, and let the transactional
  variable \<open>x\<close>, if it exists, be a scalar of the type used. In the top-level
  transaction (level 1) \<open>x\<close> is set to \<open>v1\<close>; a subtransaction (level 2) starts, sets
  \<open>x\<close> to \<open>v2\<close> and aborts. Then \<open>x\<close> is \<open>v1\<close> again, and it still is after the
  transaction has committed.
\<close>

theorem nested_abort_restores_then_commit_keeps:
  assumes "length p < NAMEDATALEN - 1" and "length x < NAMEDATALEN - 1"
    and "typ \<noteq> RECORDOID"
    and "changesStack st = None"
    and "\<forall>pk. find_package st p = Some pk \<longrightarrow>
           (\<exists>s rest hr. states pk = s # rest \<and> is_valid s
              \<and> varHashRegular pk = Some hr \<and> map_of hr x = None)"
    and "\<forall>var. find_variable st p True x = Some var \<longrightarrow>
           typid var = typ \<and> (\<exists>s rest sc. states var = s # rest \<and> val s = scalar sc)"
  shows "\<exists>st1 st2.
           run_calls [variable_set 1 p x typ v1 n1 True,
                      pgvSubTransCallback SUBXACT_EVENT_START_SUB 2,
                      variable_set 2 p x typ v2 n2 True,
                      pgvSubTransCallback SUBXACT_EVENT_ABORT_SUB 2] st = Inr st1
         \<and> variable_get 2 p x typ True st1 = Inr (if n1 then None else Some v1, st1)
         \<and> pgvTransCallback XACT_EVENT_PRE_COMMIT 1 st1 = Inr st2
         \<and> variable_get 1 p x typ True st2 = Inr (if n1 then None else Some v1, st2)"
proof (cases "find_package st p")
  case None
  then show ?thesis
    using assms(1-4) by (cases "packagesHash st"; simp add: pgv_sym)
next
  case (Some pk)
  then obtain h where h: "packagesHash st = Some h" "map_of h p = Some pk"
    by (auto dest: find_package_SomeD)
  from Some assms(5) obtain s rest hr where pk: "states pk = s # rest" "is_valid s"
    "varHashRegular pk = Some hr" "map_of hr x = None"
    by blast
  show ?thesis
  proof (cases "map_of (varHashTransact pk) x")
    case None
    then show ?thesis
      using assms(1-4) h pk by (simp add: pgv_sym)
  next
    case (Some var)
    then have "find_variable st p True x = Some var"
      using h by (simp add: find_variable_def find_package_def pack_htab_def)
    with assms(6) obtain vs vrest sc where var: "typid var = typ" "states var = vs # vrest"
      "val vs = scalar sc"
      by blast
    show ?thesis
      using assms(1,2,4) h pk Some var by (cases vrest; simp add: pgv_sym)
  qed
qed

theorem nested_abort_restores_then_commit_keeps_witness:
  "length ''p'' < NAMEDATALEN - 1 \<and> (23::Oid) \<noteq> RECORDOID
   \<and> changesStack two_variables_committed = None
   \<and> find_variable two_variables_committed ''p'' True ''x'' \<noteq> None
   \<and> (\<exists>st1 st2.
           run_calls [variable_set 1 ''p'' ''x'' 23 1 False True,
                      pgvSubTransCallback SUBXACT_EVENT_START_SUB 2,
                      variable_set 2 ''p'' ''x'' 23 2 False True,
                      pgvSubTransCallback SUBXACT_EVENT_ABORT_SUB 2] two_variables_committed
             = Inr st1
         \<and> variable_get 2 ''p'' ''x'' 23 True st1 = Inr (Some 1, st1)
         \<and> pgvTransCallback XACT_EVENT_PRE_COMMIT 1 st1 = Inr st2
         \<and> variable_get 1 ''p'' ''x'' 23 True st2 = Inr (Some 1, st2))"
proof -
  have a: "length ''p'' < NAMEDATALEN - 1" "length ''x'' < NAMEDATALEN - 1"
    "(23::Oid) \<noteq> RECORDOID"
    by (simp_all add: NAMEDATALEN_def RECORDOID_def)
  have b: "changesStack two_variables_committed = None"
    by (simp add: two_variables_committed_eq)
  have c: "\<forall>pk. find_package two_variables_committed ''p'' = Some pk \<longrightarrow>
           (\<exists>s rest hr. states pk = s # rest \<and> is_valid s
              \<and> varHashRegular pk = Some hr \<and> map_of hr ''x'' = None)"
    by (auto simp: two_variables_committed_eq find_package_def)
  have d: "\<forall>var. find_variable two_variables_committed ''p'' True ''x'' = Some var \<longrightarrow>
           typid var = 23 \<and> (\<exists>s rest sc. states var = s # rest \<and> val s = scalar sc)"
    by (auto simp: two_variables_committed_eq find_variable_def find_package_def pack_htab_def)
  have e: "find_variable two_variables_committed ''p'' True ''x'' \<noteq> None"
    by (simp add: two_variables_committed_eq find_variable_def find_package_def pack_htab_def)
  show ?thesis
    using a(1,3) b e
      nested_abort_restores_then_commit_keeps [OF a b c d, of 1 False 2 False]
    by simp
qed

subsection \<open>Abort after the removal of a package\<close>

text \<open>
  The case in which the removal of a package is undone. Package \<open>p\<close> is valid. Either
  no change is pending and the top-level transaction removes \<open>p\<close> and aborts, or the
  current level \<open>lvl\<close> of a transaction with pending changes has changed nothing yet
  (its frame is empty), the head of \<open>p\<close> is not stamped \<open>lvl\<close>, and that level removes
  \<open>p\<close> and aborts. After the abort the packages are what they were before the
  removal, except that the table of regular variables of \<open>p\<close> is a new, empty table:
  every transactional variable of \<open>p\<close> is there with the history and the value it had
  when the package was removed, and no regular variable of \<open>p\<close> is left. The cache is
  cleared and the frame of the aborted level is popped.
\<close>

lemma abort_of_package_removal:
  assumes "length p < NAMEDATALEN - 1"
    and "find_package st p = Some pk" and "states pk = s # rest" and "is_valid s"
    and "varHashRegular pk = Some hr"
  shows "(changesStack st = None \<and> \<not> changesStackContext st \<longrightarrow>
            run_calls [remove_package 1 p, pgvTransCallback XACT_EVENT_ABORT 1] st
              = Inr (store_package p (pk\<lparr>varHashRegular := Some []\<rparr>) st
                       \<lparr>LastPackage := None, LastVariable := None\<rparr>))
       \<and> (changesStack st = Some (empty_node # cs) \<and> level s \<noteq> lvl \<and> lvl \<noteq> 0 \<longrightarrow>
            run_calls [remove_package lvl p,
                       pgvSubTransCallback SUBXACT_EVENT_ABORT_SUB lvl] st
              = Inr (store_package p (pk\<lparr>varHashRegular := Some []\<rparr>) st
                       \<lparr>LastPackage := None, LastVariable := None,
                        changesStack := (if cs = [] then None else Some cs),
                        changesStackContext :=
                          (if cs = [] then False else changesStackContext st)\<rparr>))
       \<and> find_variable (store_package p (pk\<lparr>varHashRegular := Some []\<rparr>) st) p True x
            = find_variable st p True x
       \<and> find_variable (store_package p (pk\<lparr>varHashRegular := Some []\<rparr>) st) p False x
            = None"
proof -
  obtain h where h: "packagesHash st = Some h" "map_of h p = Some pk"
    using assms(2) by (auto dest: find_package_SomeD)
  have e1: "pk\<lparr>states := s # rest\<rparr> = pk"
    using assms(3) [symmetric] by simp
  have ne: "\<And>v. AList.update p v h \<noteq> []"
    using h(2) by (cases h) auto
  have top: "run_calls [remove_package 1 p, pgvTransCallback XACT_EVENT_ABORT 1] st
               = Inr (store_package p (pk\<lparr>varHashRegular := Some []\<rparr>) st
                       \<lparr>LastPackage := None, LastVariable := None\<rparr>)"
    if q: "changesStack st = None" "\<not> changesStackContext st"
  proof -
    have e2: "\<And>f. st\<lparr>LastPackage := None, LastVariable := None, packagesHash := f,
                       changesStack := None, changesStackContext := False\<rparr>
                   = st\<lparr>packagesHash := f, LastPackage := None, LastVariable := None\<rparr>"
      using q by (cases st) simp
    show ?thesis
      using assms(1,3,4,5) h q by (simp add: pgv_sym update_update_same e1 e2 ne)
  qed
  have nested: "run_calls [remove_package lvl p,
                       pgvSubTransCallback SUBXACT_EVENT_ABORT_SUB lvl] st
              = Inr (store_package p (pk\<lparr>varHashRegular := Some []\<rparr>) st
                       \<lparr>LastPackage := None, LastVariable := None,
                        changesStack := (if cs = [] then None else Some cs),
                        changesStackContext :=
                          (if cs = [] then False else changesStackContext st)\<rparr>)"
    if q: "changesStack st = Some (empty_node # cs)" "level s \<noteq> lvl" "lvl \<noteq> 0"
    using assms(1,3,4,5) h q
    by (cases cs; simp add: pgv_sym update_update_same e1 ne)
  have look: "find_variable (store_package p (pk\<lparr>varHashRegular := Some []\<rparr>) st) p tbl x
               = (if tbl then find_variable st p True x else None)" for tbl
    using h by (simp add: find_variable_def find_package_def store_package_def pack_htab_def
        update_conv')
  show ?thesis
    using top nested look [of True] look [of False] by simp
qed

lemma abort_of_package_removal_example:
  "length ''p'' < NAMEDATALEN - 1
   \<and> changesStack two_variables_committed = None
   \<and> variable_exists 1 ''p'' ''y'' two_variables_committed = Inr (True, two_variables_committed)
   \<and> (case run_calls [remove_package 1 ''p'', pgvTransCallback XACT_EVENT_ABORT 1]
                 two_variables_committed of
         Inl e \<Rightarrow> False
       | Inr st' \<Rightarrow>
           variable_get 1 ''p'' ''x'' 23 True st' = Inr (Some 7, st')
         \<and> variable_exists 1 ''p'' ''y'' st' = Inr (False, st'))
   \<and> variable_get 2 ''p'' ''x'' 23 True changed_then_subtransaction
       = Inr (Some 9, changed_then_subtransaction)
   \<and> (case run_calls [remove_package 2 ''p'',
                       pgvSubTransCallback SUBXACT_EVENT_ABORT_SUB 2]
                 changed_then_subtransaction of
         Inl e \<Rightarrow> False
       | Inr st' \<Rightarrow>
           variable_get 1 ''p'' ''x'' 23 True st' = Inr (Some 9, st')
         \<and> variable_exists 1 ''p'' ''y'' st' = Inr (False, st'))"
proof -
  let ?y = "\<lparr>states = [\<lparr>is_valid = True, level = 0,
                        val = scalar \<lparr>scalar_value = 8, is_null = False\<rparr>\<rparr>],
            typid = 23, is_transactional = False\<rparr>"
  let ?x = "\<lparr>states = [\<lparr>is_valid = True, level = 0,
                        val = scalar \<lparr>scalar_value = 7, is_null = False\<rparr>\<rparr>],
            typid = 23, is_transactional = True\<rparr>"
  let ?x9 = "\<lparr>states = [\<lparr>is_valid = True, level = 1,
                         val = scalar \<lparr>scalar_value = 9, is_null = False\<rparr>\<rparr>,
                       \<lparr>is_valid = True, level = 0,
                         val = scalar \<lparr>scalar_value = 7, is_null = False\<rparr>\<rparr>],
            typid = 23, is_transactional = True\<rparr>"
  let ?s = "\<lparr>is_valid = True, level = 0\<rparr>"
  let ?pk = "\<lparr>states = [?s], varHashRegular = Some [(''y'', ?y)],
              varHashTransact = [(''x'', ?x)]\<rparr>"
  let ?pk9 = "\<lparr>states = [?s], varHashRegular = Some [(''y'', ?y)],
               varHashTransact = [(''x'', ?x9)]\<rparr>"
  let ?c = "changed_then_subtransaction"
  have a: "length ''p'' < NAMEDATALEN - 1"
    by (simp add: NAMEDATALEN_def)
  have b: "changesStack two_variables_committed = None"
    "\<not> changesStackContext two_variables_committed"
    "find_package two_variables_committed ''p'' = Some ?pk"
    by (simp_all add: two_variables_committed_eq find_package_def)
  have d: "states ?pk = ?s # []" "is_valid ?s" "varHashRegular ?pk = Some [(''y'', ?y)]"
    "states ?pk9 = ?s # []" "varHashRegular ?pk9 = Some [(''y'', ?y)]"
    by simp_all
  have e: "variable_exists 1 ''p'' ''y'' two_variables_committed
             = Inr (True, two_variables_committed)"
    by (simp add: two_variables_committed_eq pgv_eval)
  have c: "find_package ?c ''p'' = Some ?pk9"
    "changesStack ?c
       = Some (empty_node # [\<lparr>changedVarsList = [(''p'', ''x'')], changedPacksList = []\<rparr>])"
    "level ?s \<noteq> 2" "(2::int) \<noteq> 0"
    "variable_get 2 ''p'' ''x'' 23 True ?c = Inr (Some 9, ?c)"
    by (simp_all add: pgv_eval pgv_samples)
  note t1 = abort_of_package_removal [OF a b(3) d(1,2,3)]
  note t2 = abort_of_package_removal [OF a c(1) d(4) d(2) d(5), where lvl = 2]
  have r1: "run_calls [remove_package 1 ''p'', pgvTransCallback XACT_EVENT_ABORT 1]
              two_variables_committed
            = Inr (store_package ''p'' (?pk\<lparr>varHashRegular := Some []\<rparr>)
                     two_variables_committed \<lparr>LastPackage := None, LastVariable := None\<rparr>)"
    using t1 b(1,2) by blast
  have r2: "run_calls [remove_package 2 ''p'',
                       pgvSubTransCallback SUBXACT_EVENT_ABORT_SUB 2] ?c
            = Inr (store_package ''p'' (?pk9\<lparr>varHashRegular := Some []\<rparr>) ?c
                     \<lparr>LastPackage := None, LastVariable := None,
                      changesStack :=
                        Some [\<lparr>changedVarsList = [(''p'', ''x'')], changedPacksList = []\<rparr>],
                      changesStackContext := changesStackContext ?c\<rparr>)"
    using t2 [where cs = "[\<lparr>changedVarsList = [(''p'', ''x'')], changedPacksList = []\<rparr>]"]
      c(2,3,4)
    by simp
  have v1: "variable_get 1 ''p'' ''x'' 23 True
              (store_package ''p'' (?pk\<lparr>varHashRegular := Some []\<rparr>)
                     two_variables_committed \<lparr>LastPackage := None, LastVariable := None\<rparr>)
            = Inr (Some 7, store_package ''p'' (?pk\<lparr>varHashRegular := Some []\<rparr>)
                     two_variables_committed \<lparr>LastPackage := None, LastVariable := None\<rparr>)"
    "variable_exists 1 ''p'' ''y''
              (store_package ''p'' (?pk\<lparr>varHashRegular := Some []\<rparr>)
                     two_variables_committed \<lparr>LastPackage := None, LastVariable := None\<rparr>)
            = Inr (False, store_package ''p'' (?pk\<lparr>varHashRegular := Some []\<rparr>)
                     two_variables_committed \<lparr>LastPackage := None, LastVariable := None\<rparr>)"
    by (simp_all add: two_variables_committed_eq pgv_eval)
  have v2: "variable_get 1 ''p'' ''x'' 23 True
              (store_package ''p'' (?pk9\<lparr>varHashRegular := Some []\<rparr>) ?c
                     \<lparr>LastPackage := None, LastVariable := None,
                      changesStack :=
                        Some [\<lparr>changedVarsList = [(''p'', ''x'')], changedPacksList = []\<rparr>],
                      changesStackContext := changesStackContext ?c\<rparr>)
            = Inr (Some 9, store_package ''p'' (?pk9\<lparr>varHashRegular := Some []\<rparr>) ?c
                     \<lparr>LastPackage := None, LastVariable := None,
                      changesStack :=
                        Some [\<lparr>changedVarsList = [(''p'', ''x'')], changedPacksList = []\<rparr>],
                      changesStackContext := changesStackContext ?c\<rparr>)"
    "variable_exists 1 ''p'' ''y''
              (store_package ''p'' (?pk9\<lparr>varHashRegular := Some []\<rparr>) ?c
                     \<lparr>LastPackage := None, LastVariable := None,
                      changesStack :=
                        Some [\<lparr>changedVarsList = [(''p'', ''x'')], changedPacksList = []\<rparr>],
                      changesStackContext := changesStackContext ?c\<rparr>)
            = Inr (False, store_package ''p'' (?pk9\<lparr>varHashRegular := Some []\<rparr>) ?c
                     \<lparr>LastPackage := None, LastVariable := None,
                      changesStack :=
                        Some [\<lparr>changedVarsList = [(''p'', ''x'')], changedPacksList = []\<rparr>],
                      changesStackContext := changesStackContext ?c\<rparr>)"
    by (simp_all add: pgv_eval pgv_samples)
  show ?thesis
    unfolding r1 r2 using a b(1) e c(5) v1 v2 by simp
qed

text \<open>
  C5 at an input. A first transaction sets the regular variable \<open>y\<close> of the new
  package \<open>p\<close> and aborts: \<^verbatim>\<open>rollbackSavepoint\<close> leaves the valid head of the package
  as it is, stamped 1. A second transaction sets the transactional variable \<open>x\<close> to 7
  and commits. A third one sets \<open>x\<close> to 9 and removes the package. The stack exists and
  the head of \<open>p\<close> carries the current level, so for \<^verbatim>\<open>isObjectChangedInCurrentTrans\<close>
  the package has changed in this transaction already: \<^verbatim>\<open>removePackageInternal\<close>
  takes no savepoint, does not list the package, and invalidates the only state the
  package has. The abort rolls \<open>x\<close> back to its committed state and finds no package
  in the frame. The package stays removed, and \<open>x\<close> cannot be read.
\<close>

theorem stale_level_defeats_abort_of_removal:
  "(case run_calls [variable_set 1 ''p'' ''y'' 23 8 False False,
                    pgvTransCallback XACT_EVENT_ABORT 1,
                    variable_set 1 ''p'' ''x'' 23 7 False True,
                    pgvTransCallback XACT_EVENT_PRE_COMMIT 1] initial_state of
      Inl e \<Rightarrow> False
    | Inr st \<Rightarrow>
        changesStack st = None
      \<and> object_states st (TRANS_PACKAGE ''p'') = Some [(True, 1)]
      \<and> variable_get 1 ''p'' ''x'' 23 True st = Inr (Some 7, st)
      \<and> (case run_calls [variable_set 1 ''p'' ''x'' 23 9 False True,
                          remove_package 1 ''p''] st of
            Inl e \<Rightarrow> False
          | Inr st1 \<Rightarrow>
              changesStack st1
                = Some [\<lparr>changedVarsList = [(''p'', ''x'')], changedPacksList = []\<rparr>]
            \<and> object_states st1 (TRANS_PACKAGE ''p'') = Some [(False, 1)]
            \<and> (case pgvTransCallback XACT_EVENT_ABORT 1 st1 of
                  Inl e \<Rightarrow> False
                | Inr st2 \<Rightarrow>
                    changesStack st2 = None
                  \<and> object_states st2 (TRANS_PACKAGE ''p'') = Some [(False, 1)]
                  \<and> object_states st2 (TRANS_VARIABLE ''p'' ''x'') = Some [(True, 0)]
                  \<and> package_exists 1 ''p'' st2 = Inr (False, st2)
                  \<and> variable_get 1 ''p'' ''x'' 23 True st2
                      = Inl (UnrecognizedPackage, st2))))"
  by (simp add: pgv_eval)

subsection \<open>Conflicting flag or type\<close>

text \<open>
  C6. Package \<open>p\<close> is valid and holds variable \<open>x\<close> in exactly one of its two tables
  (\<open>tbl\<close> says in which: \<open>True\<close> for the transactional one). Setting \<open>x\<close> with the other
  flag fails with ``already created as [NOT ]TRANSACTIONAL'', setting it with the right
  flag and another type fails with ``requires "type" value'', and so does reading it
  with another type. The two errors differ, and each is raised in the state the call
  started in. \<^verbatim>\<open>variable_insert\<close> with the other flag fails in the same way after it
  has written the cache only.
\<close>

theorem mismatch_fails_without_mutation:
  assumes "find_package st p = Some pk" and "states pk = s # rest" and "is_valid s"
    and "varHashRegular pk = Some hr"
    and "length p < NAMEDATALEN - 1" and "length x < NAMEDATALEN - 1"
    and "map_of hr x = (if tbl then None else Some var)"
    and "map_of (varHashTransact pk) x = (if tbl then Some var else None)"
  shows "(tr \<noteq> tbl \<longrightarrow> variable_set lvl p x ty v n tr st = Inl (AlreadyCreatedAs tbl, st))
       \<and> (tr = tbl \<and> ty \<noteq> typid var \<longrightarrow>
            variable_set lvl p x ty v n tr st = Inl (RequiresValue (typid var), st))
       \<and> (ty \<noteq> typid var \<longrightarrow>
            variable_get lvl p x ty strict st = Inl (RequiresValue (typid var), st))
       \<and> (tr \<noteq> tbl \<and> LastPackage st = None \<longrightarrow>
            variable_insert api lvl p x rec tr st
              = Inl (AlreadyCreatedAs tbl, st\<lparr>LastPackage := Some p, LastVariable := None\<rparr>))
       \<and> AlreadyCreatedAs tbl \<noteq> RequiresValue (typid var)"
proof -
  have g: "\<And>create strict. getPackageByName lvl p create strict st = Inr (Some p, st)"
    using assms(1,2,3,5) by (rule getPackageByName_valid)
  have k: "\<And>st'. getKeyFromName x st' = Inr (x, st')"
    using assms(6) by (simp add: getKeyFromName_def)
  have 1: "variable_set lvl p x ty v n tr st = Inl (AlreadyCreatedAs tbl, st)" if "tr \<noteq> tbl"
    using that assms(1,4,7,8)
    by (cases tr) (auto simp: variable_set_def g createVariableInternal_def k pack_htab_def)
  have 2: "variable_set lvl p x ty v n tr st = Inl (RequiresValue (typid var), st)"
    if "tr = tbl" "ty \<noteq> typid var"
    using that assms(1,4,7,8)
    by (cases tr) (auto simp: variable_set_def g createVariableInternal_def k pack_htab_def
        enter_variable_def)
  have 3: "variable_get lvl p x ty strict st = Inl (RequiresValue (typid var), st)"
    if "ty \<noteq> typid var"
    using that assms(1,4,7,8)
    by (cases tbl) (auto simp: variable_get_def g getVariableInternal_def k search_both_def)
  have 4: "variable_insert api lvl p x rec tr st
             = Inl (AlreadyCreatedAs tbl, st\<lparr>LastPackage := Some p, LastVariable := None\<rparr>)"
    if "tr \<noteq> tbl" "LastPackage st = None"
    using that assms(1,4,7,8)
    by (cases tr) (auto simp: variable_insert_def get_cached_package_def g
        get_cached_variable_insert_def createVariableInternal_def k pack_htab_def
        find_package_def)
  show ?thesis using 1 2 3 4 by simp
qed

theorem mismatch_fails_without_mutation_witness:
  "length ''p'' < NAMEDATALEN - 1
   \<and> variable_exists 1 ''p'' ''x'' two_variables_committed = Inr (True, two_variables_committed)
   \<and> LastPackage two_variables_committed = None
   \<and> variable_set 1 ''p'' ''x'' 23 9 False False two_variables_committed
        = Inl (AlreadyCreatedAs True, two_variables_committed)
   \<and> variable_set 1 ''p'' ''x'' 25 9 False True two_variables_committed
        = Inl (RequiresValue 23, two_variables_committed)
   \<and> variable_get 1 ''p'' ''x'' 25 True two_variables_committed
        = Inl (RequiresValue 23, two_variables_committed)
   \<and> variable_insert list_api 1 ''p'' ''x'' ([23], [9]) False two_variables_committed
        = Inl (AlreadyCreatedAs True,
               two_variables_committed\<lparr>LastPackage := Some ''p'', LastVariable := None\<rparr>)"
proof -
  let ?y = "\<lparr>states = [\<lparr>is_valid = True, level = 0,
                        val = scalar \<lparr>scalar_value = 8, is_null = False\<rparr>\<rparr>],
            typid = 23, is_transactional = False\<rparr>"
  let ?x = "\<lparr>states = [\<lparr>is_valid = True, level = 0,
                        val = scalar \<lparr>scalar_value = 7, is_null = False\<rparr>\<rparr>],
            typid = 23, is_transactional = True\<rparr>"
  let ?pk = "\<lparr>states = [\<lparr>is_valid = True, level = 0\<rparr>],
         varHashRegular = Some [(''y'', ?y)], varHashTransact = [(''x'', ?x)]\<rparr>"
  have a: "find_package two_variables_committed ''p'' = Some ?pk"
    by (simp add: two_variables_committed_eq find_package_def)
  have b: "states ?pk = \<lparr>is_valid = True, level = 0\<rparr> # []"
    "is_valid \<lparr>is_valid = True, level = 0\<rparr>"
    "varHashRegular ?pk = Some [(''y'', ?y)]"
    by simp_all
  have c: "length ''p'' < NAMEDATALEN - 1" "length ''x'' < NAMEDATALEN - 1"
    by (simp_all add: NAMEDATALEN_def)
  have d: "map_of [(''y'', ?y)] ''x'' = (if True then None else Some ?x)"
    "map_of (varHashTransact ?pk) ''x'' = (if True then Some ?x else None)"
    by simp_all
  have e: "variable_exists 1 ''p'' ''x'' two_variables_committed
             = Inr (True, two_variables_committed)"
    "LastPackage two_variables_committed = None"
    by (simp_all add: two_variables_committed_eq pgv_eval)
  show ?thesis
    using c(1) e
      mismatch_fails_without_mutation [OF a b c d, where tr = False and lvl = 1 and ty = 23
        and v = 9 and n = False and api = list_api and rec = "([23], [9])"]
      mismatch_fails_without_mutation [OF a b c d, where tr = True and lvl = 1 and ty = 25
        and v = 9 and n = False and strict = True]
    by simp
qed

subsection \<open>Reset when the last package has gone\<close>

text \<open>
  C8. \<^verbatim>\<open>processChanges\<close> is what the callbacks run at the commit or the abort of a
  level (\<^verbatim>\<open>pgvTransCallback\<close> for the top level). When it returns and the table of
  packages has no entry, the state is the initial one: the table, the contexts, the
  cache and the stack are all \<^verbatim>\<open>NULL\<close>, so the next call finds the module as the
  first call ever did.
\<close>

theorem teardown_on_empty_registry:
  assumes "processChanges action lvl st = Inr st'"
    and "packagesHash st' = None \<or> packagesHash st' = Some []"
  shows "st' = initial_state
       \<and> variable_set l p x typ v n tr st' = variable_set l p x typ v n tr initial_state"
  using assms
  by (auto simp: processChanges_def finish_changes_def Let_def initial_state_def
      split: option.splits list.splits sum.splits if_splits)

theorem teardown_on_empty_registry_witness:
  "changesStack created_and_removed \<noteq> None
   \<and> find_package created_and_removed ''p'' \<noteq> None
   \<and> pgvTransCallback XACT_EVENT_PRE_COMMIT 1 created_and_removed = Inr initial_state
   \<and> processChanges RELEASE_SAVEPOINT 1 created_and_removed = Inr initial_state
   \<and> packagesHash initial_state = None"
proof -
  have a: "processChanges RELEASE_SAVEPOINT 1 created_and_removed = Inr initial_state"
    by (simp add: pgv_eval pgv_samples)
  have b: "packagesHash initial_state = None \<or> packagesHash initial_state = Some []"
    by (simp add: initial_state_def)
  have c: "changesStack created_and_removed \<noteq> None"
    "find_package created_and_removed ''p'' \<noteq> None"
    "pgvTransCallback XACT_EVENT_PRE_COMMIT 1 created_and_removed = Inr initial_state"
    by (simp_all add: pgv_eval pgv_samples)
  show ?thesis
    using a c teardown_on_empty_registry [OF a b, of 1 "''p''" "''x''" 23 7 False True]
    by (simp add: initial_state_def)
qed

subsection \<open>The end of a level, object by object\<close>










subsection \<open>Commit of a level\<close>











subsection \<open>Abort of a level\<close>










subsection \<open>One state for each level\<close>

text \<open>
  Registering a change is idempotent. With a transaction open (\<open>0 < lvl\<close>), the first
  \<open>register_change\<close> of an object pushes one copy of the head, stamped \<open>lvl\<close>, unless
  the stack exists and the head carries \<open>lvl\<close> already; a second one returns the state
  as it is. The stack that is allocated but empty is left out: \<^verbatim>\<open>dlist_head_element\<close>
  is undefined there.
\<close>

lemma register_change_idempotent:
  assumes "0 < lvl" and "object_states st obj = Some (s # rest)" and "changesStack st \<noteq> Some []"
  shows "\<exists>st1. register_change lvl obj st = Inr st1
           \<and> register_change lvl obj st1 = Inr st1
           \<and> object_states st1 obj
               = Some (if changesStack st \<noteq> None \<and> snd s = lvl then s # rest
                       else (fst s, lvl) # s # rest)"
proof (cases obj)
  case (TRANS_PACKAGE p)
  with assms(2) obtain h pk s0 rest0 where f: "packagesHash st = Some h" "map_of h p = Some pk"
    "states pk = s0 # rest0" "s = (is_valid s0, level s0)"
    "rest = map (\<lambda>s. (is_valid s, level s)) rest0"
    by (auto elim: object_states_packD)
  show ?thesis
  proof (cases "changesStack st")
    case None
    then show ?thesis
      using f TRANS_PACKAGE assms(1)
      by (simp add: pgv_sym prepare_fresh del: prepareChangesStack_def)
  next
    case (Some cs)
    then obtain c cs' where "cs = c # cs'" using assms(3) by (cases cs) auto
    then show ?thesis
      using f TRANS_PACKAGE assms(1) Some
      by (simp add: pgv_sym)
  qed
next
  case (TRANS_VARIABLE p x)
  with assms(2) obtain h pk var s0 rest0 where f: "packagesHash st = Some h"
    "map_of h p = Some pk" "map_of (varHashTransact pk) x = Some var"
    "states var = s0 # rest0" "s = (is_valid s0, level s0)"
    "rest = map (\<lambda>s. (is_valid s, level s)) rest0"
    by (auto elim: object_states_varD)
  show ?thesis
  proof (cases "changesStack st")
    case None
    then show ?thesis
      using f TRANS_VARIABLE assms(1)
      by (simp add: pgv_sym prepare_fresh del: prepareChangesStack_def)
  next
    case (Some cs)
    then obtain c cs' where "cs = c # cs'" using assms(3) by (cases cs) auto
    then show ?thesis
      using f TRANS_VARIABLE assms(1) Some
      by (simp add: pgv_sym)
  qed
qed

text \<open>
  C4 at an input. A transaction creates package \<open>p\<close>; its subtransaction (level 2)
  removes the package, creates it again by setting a variable, and aborts. The abort
  leaves the valid head, stamped 2, in place, so when level 1 commits the head of the
  listed package is not stamped with the committing level (the condition of the
  \<^verbatim>\<open>Assert\<close> in \<^verbatim>\<open>releaseSavepoint\<close>). The commit stamps it 1, with no
  transaction open. The next transaction removes the package: its new head is stamped
  1 as well, and the history holds two entries of level 1.
\<close>

theorem two_states_of_one_level:
  "(case run_calls [variable_set 1 ''p'' ''y'' 23 8 False False,
                    pgvSubTransCallback SUBXACT_EVENT_START_SUB 2,
                    remove_package 2 ''p'',
                    variable_set 2 ''p'' ''y'' 23 8 False False,
                    pgvSubTransCallback SUBXACT_EVENT_ABORT_SUB 2] initial_state of
      Inl e \<Rightarrow> False
    | Inr st \<Rightarrow>
        changesStack st = Some [\<lparr>changedVarsList = [], changedPacksList = [''p'']\<rparr>]
      \<and> object_states st (TRANS_PACKAGE ''p'') = Some [(True, 2), (True, 1)]
      \<and> (case pgvTransCallback XACT_EVENT_PRE_COMMIT 1 st of
            Inl e \<Rightarrow> False
          | Inr st1 \<Rightarrow>
              changesStack st1 = None
            \<and> object_states st1 (TRANS_PACKAGE ''p'') = Some [(True, 1)]
            \<and> (case remove_package 1 ''p'' st1 of
                  Inl e \<Rightarrow> False
                | Inr st2 \<Rightarrow>
                    object_states st2 (TRANS_PACKAGE ''p'') = Some [(False, 1), (True, 1)])))"
  by (simp add: pgv_eval)

subsection \<open>Lookups that are not strict\<close>

text \<open>
  What the two lookups do with an object that is absent or whose state is invalid.
  A strict lookup fails in both cases. When it is not strict, \<open>getPackageByName\<close>
  returns nothing in both cases, and \<open>getVariableInternal\<close> returns nothing for an
  absent variable but the variable itself when its state is invalid.
\<close>

lemma getPackageByName_absent_or_invalid:
  assumes "length p < NAMEDATALEN - 1"
    and "find_package st p = None
         \<or> (\<exists>pk s rest. find_package st p = Some pk \<and> states pk = s # rest \<and> \<not> is_valid s)"
  shows "getPackageByName lvl p False True st = Inl (UnrecognizedPackage, st)"
    and "getPackageByName lvl p False False st = Inr (None, st)"
  using assms
  by (auto simp: getPackageByName_def getKeyFromName_def GetActualState_def object_states_def
      find_package_def Let_def split: option.splits)

lemma getVariableInternal_absent_or_invalid:
  assumes "length x < NAMEDATALEN - 1" and "find_package st p = Some pk"
  shows "search_both pk x = Some None \<Longrightarrow>
           getVariableInternal p x ty True st = Inl (UnrecognizedVariable, st)
         \<and> getVariableInternal p x ty False st = Inr (None, st)"
    and "search_both pk x = Some (Some (tbl, var)) \<Longrightarrow> typid var = ty \<Longrightarrow>
         states var = s # rest \<Longrightarrow> \<not> is_valid s \<Longrightarrow>
           getVariableInternal p x ty True st = Inl (UnrecognizedVariable, st)
         \<and> getVariableInternal p x ty False st = Inr (Some (p, tbl, x), st)"
  using assms
  by (auto simp: getVariableInternal_def getKeyFromName_def)

text \<open>
  C7 at an input. The committed transactional variable \<open>x\<close> (value 7) is removed in a
  transaction. For \<^verbatim>\<open>variable_exists\<close> it does not exist and the strict lookup fails,
  but \<^verbatim>\<open>variable_get\<close> with \<open>strict = False\<close> returns 7: \<^verbatim>\<open>getVariableInternal\<close>
  hands out the variable whose state is invalid.
\<close>

theorem nonstrict_get_returns_removed_variable:
  "(case remove_variable 1 ''p'' ''x'' two_variables_committed of
      Inl e \<Rightarrow> False
    | Inr st \<Rightarrow>
        variable_exists 1 ''p'' ''x'' st = Inr (False, st)
      \<and> variable_get 1 ''p'' ''x'' 23 True st = Inl (UnrecognizedVariable, st)
      \<and> getVariableInternal ''p'' ''x'' 23 False st = Inr (Some (''p'', True, ''x''), st)
      \<and> variable_get 1 ''p'' ''x'' 23 False st = Inr (Some 7, st))"
  by (simp add: pgv_eval two_variables_committed_eq)

subsection \<open>The cache\<close>

text \<open>
  C9 at an input. In \<open>removed_then_reinserted\<close> the cache points to the record variable
  \<open>r\<close>, whose state is invalid since the subtransaction that had inserted into it again
  was rolled back. \<^verbatim>\<open>variable_insert\<close> through the cache adds the row and leaves the
  variable invalid; the same call with an empty cache goes through
  \<^verbatim>\<open>createVariableInternal\<close>, which makes the variable valid. In the same way
  \<^verbatim>\<open>variable_update\<close> through the cache updates the removed variable, while with an
  empty cache it fails with ``unrecognized variable''.
\<close>

theorem stale_cache_changes_insert:
  "LastVariable removed_then_reinserted = Some (''p'', True, ''r'')
   \<and> (case variable_insert list_api 1 ''p'' ''r'' ([23], [3]) True removed_then_reinserted of
         Inl e \<Rightarrow> False
       | Inr a \<Rightarrow> variable_exists 1 ''p'' ''r'' a = Inr (False, a))
   \<and> (case variable_insert list_api 1 ''p'' ''r'' ([23], [3]) True
               (removed_then_reinserted\<lparr>LastPackage := None, LastVariable := None\<rparr>) of
         Inl e \<Rightarrow> False
       | Inr b \<Rightarrow> variable_exists 1 ''p'' ''r'' b = Inr (True, b))
   \<and> (case variable_update list_api 1 ''p'' ''r'' ([23], [1]) removed_then_reinserted of
         Inl e \<Rightarrow> False
       | Inr a \<Rightarrow> fst a)
   \<and> variable_update list_api 1 ''p'' ''r'' ([23], [1])
         (removed_then_reinserted\<lparr>LastPackage := None, LastVariable := None\<rparr>)
       = Inl (UnrecognizedVariable,
              removed_then_reinserted\<lparr>LastPackage := Some ''p'', LastVariable := None\<rparr>)"
  by (simp add: pgv_eval pgv_samples)

end
